theory Spec2Isabelle
  imports Main
begin

section \<open>Python values and exceptions\<close>

text \<open>
  The formatters of \<^verbatim>\<open>wallet_integration.py\<close> receive payloads parsed from JSON:
  \<^verbatim>\<open>None\<close>, booleans, integers, floats, strings, lists and dictionaries with string
  keys. A dictionary keeps its insertion order, so it is an association list (its keys
  are distinct in every Python dictionary). A string is a list of characters, each
  standing for one code point below 256.
\<close>

datatype pyfloat =
    Finite bool nat int  \<comment> \<open>sign bit, mantissa \<open>m\<close>, exponent \<open>e\<close>: the value \<open>\<plusminus> m * 2 ^ e\<close>\<close>
  | Infinite bool        \<comment> \<open>\<open>inf\<close>, or \<open>-inf\<close> when the sign bit is set\<close>
  | NaN

datatype pyval =
    PNone
  | PBool bool
  | PInt int
  | PFloat pyfloat
  | PStr string
  | PList "pyval list"
  | PDict "(string \<times> pyval) list"

datatype exn = AttributeError | TypeError | ValueError | OverflowError | KeyError | IndexError

text \<open>
  A computation that may raise returns \<open>Inl\<close> of the exception; \<open>bind_exn\<close>
  runs the next statement on the value of a computation that did not raise.
\<close>

definition bind_exn :: "exn + 'a \<Rightarrow> ('a \<Rightarrow> exn + 'b) \<Rightarrow> exn + 'b" where
  "bind_exn x f = (case x of Inl e \<Rightarrow> Inl e | Inr v \<Rightarrow> f v)"

section \<open>Decimal digits\<close>

definition digit_char :: "nat \<Rightarrow> char" where
  "digit_char d = ''0123456789'' ! d"

text \<open>\<^verbatim>\<open>str(n)\<close> for an integer \<open>n\<close> that is not negative, and for any integer.\<close>

fun str_nat :: "nat \<Rightarrow> string" where
  "str_nat n = (if n < 10 then [digit_char n] else str_nat (n div 10) @ [digit_char (n mod 10)])"

declare str_nat.simps [simp del]

definition str_int :: "int \<Rightarrow> string" where
  "str_int i = (if i < 0 then ''-'' @ str_nat (nat (- i)) else str_nat (nat i))"

text \<open>The last \<open>p\<close> decimal digits of \<open>n\<close>, zero-padded.\<close>

primrec digits_fixed :: "nat \<Rightarrow> nat \<Rightarrow> string" where
  "digits_fixed 0 n = []"
| "digits_fixed (Suc p) n = digits_fixed p (n div 10) @ [digit_char (n mod 10)]"

definition is_digit :: "char \<Rightarrow> bool" where
  "is_digit c = (c \<in> set ''0123456789'')"

definition digit_val :: "char \<Rightarrow> nat" where
  "digit_val c = of_char c - 48"

definition nat_of_digits :: "string \<Rightarrow> nat" where
  "nat_of_digits ds = foldl (\<lambda>n c. 10 * n + digit_val c) 0 ds"

section \<open>Floats\<close>

text \<open>
  A Python float is an IEEE 754 binary64 number. Conversions from decimal strings and
  from integers, and the product of two floats, are correctly rounded: the exact result
  is rounded to the nearest float, a tie to the one with an even mantissa.
\<close>

text \<open>\<open>a / b\<close> rounded to the nearest integer, a tie to the even one.\<close>

definition rne_div :: "nat \<Rightarrow> nat \<Rightarrow> nat" where
  "rne_div a b =
     (let q = a div b; r = a mod b
      in if 2 * r < b then q else if b < 2 * r then q + 1 else if even q then q else q + 1)"

fun bit_length :: "nat \<Rightarrow> nat" where
  "bit_length n = (if n = 0 then 0 else Suc (bit_length (n div 2)))"

declare bit_length.simps [simp del]

text \<open>\<open>2 ^ k \<le> num / den\<close>, for an exponent \<open>k\<close> of either sign.\<close>

definition pow2_le :: "int \<Rightarrow> nat \<Rightarrow> nat \<Rightarrow> bool" where
  "pow2_le k num den =
     (if 0 \<le> k then den * 2 ^ nat k \<le> num else den \<le> num * 2 ^ nat (- k))"

text \<open>
  The float nearest to \<open>\<plusminus> num / den\<close> (\<open>den\<close> positive): a mantissa of 53 bits, the
  exponent at least \<open>-1074\<close> (below it the numbers are subnormal), and infinity from
  \<open>2 ^ 1024\<close> on.
\<close>

definition to_double :: "bool \<Rightarrow> nat \<Rightarrow> nat \<Rightarrow> pyfloat" where
  "to_double s num den =
     (if num = 0 then Finite s 0 0
      else
        let k = int (bit_length num) - int (bit_length den);
            lg = (if pow2_le k num den then k else k - 1);
            e = max (lg - 52) (- 1074);
            m = (if 0 \<le> e then rne_div num (den * 2 ^ nat e)
                 else rne_div (num * 2 ^ nat (- e)) den);
            m' = (if m = 2 ^ 53 then 2 ^ 52 else m);
            e' = (if m = 2 ^ 53 then e + 1 else e)
        in if 971 < e' then Infinite s else Finite s m' e')"

text \<open>\<^verbatim>\<open>float(i)\<close> for an integer: OverflowError when it is too large.\<close>

definition float_of_int :: "int \<Rightarrow> exn + pyfloat" where
  "float_of_int i =
     (case to_double (i < 0) (nat \<bar>i\<bar>) 1 of
        Infinite s \<Rightarrow> Inl OverflowError
      | f \<Rightarrow> Inr f)"

text \<open>The product of two floats.\<close>

fun float_mul :: "pyfloat \<Rightarrow> pyfloat \<Rightarrow> pyfloat" where
  "float_mul NaN g = NaN"
| "float_mul f NaN = NaN"
| "float_mul (Infinite s) (Infinite t) = Infinite (s \<noteq> t)"
| "float_mul (Infinite s) (Finite t m e) = (if m = 0 then NaN else Infinite (s \<noteq> t))"
| "float_mul (Finite s m e) (Infinite t) = (if m = 0 then NaN else Infinite (s \<noteq> t))"
| "float_mul (Finite s m e) (Finite t n d) =
     (if 0 \<le> e + d then to_double (s \<noteq> t) (m * n * 2 ^ nat (e + d)) 1
      else to_double (s \<noteq> t) (m * n) (2 ^ nat (- (e + d))))"

text \<open>\<^verbatim>\<open>bool(f)\<close>: both zeros are false, every other float is true.\<close>

fun float_nonzero :: "pyfloat \<Rightarrow> bool" where
  "float_nonzero (Finite s m e) = (m \<noteq> 0)"
| "float_nonzero f = True"

text \<open>
  \<^verbatim>\<open>f"{x:.pf}"\<close>: the exact value of the float rounded to \<open>p\<close> decimals, a tie to
  the even digit; the sign is the sign bit, also of a zero.
\<close>

fun format_f :: "nat \<Rightarrow> pyfloat \<Rightarrow> string" where
  "format_f p (Finite s m e) =
     (let scaled = (if 0 \<le> e then m * 2 ^ nat e * 10 ^ p else rne_div (m * 10 ^ p) (2 ^ nat (- e)))
      in (if s then ''-'' else '''') @ str_nat (scaled div 10 ^ p)
           @ (if p = 0 then '''' else ''.'' @ digits_fixed p (scaled mod 10 ^ p)))"
| "format_f p (Infinite s) = (if s then ''-inf'' else ''inf'')"
| "format_f p NaN = ''nan''"

section \<open>Floats from strings\<close>

text \<open>
  \<^verbatim>\<open>float(s)\<close> for a string: white space around the number is dropped; an underscore
  may stand between two digits; the number is \<open>inf\<close>, \<open>infinity\<close> or \<open>nan\<close> in any case,
  or decimal digits with an optional point and an optional exponent, after an optional
  sign. Anything else raises ValueError.
\<close>

definition is_space :: "char \<Rightarrow> bool" where
  "is_space c = (c \<in> set [CHR 0x09, CHR 0x0A, CHR 0x0B, CHR 0x0C, CHR 0x0D, CHR 0x20, CHR 0x85, CHR 0xA0])"

definition strip :: "string \<Rightarrow> string" where
  "strip s = rev (dropWhile is_space (rev (dropWhile is_space s)))"

text \<open>Every underscore has a digit before it and a digit after it.\<close>

fun underscores_ok :: "char \<Rightarrow> string \<Rightarrow> bool" where
  "underscores_ok prev [] = (prev \<noteq> CHR ''_'')"
| "underscores_ok prev (c # cs) =
     ((if c = CHR ''_'' then is_digit prev else if prev = CHR ''_'' then is_digit c else True)
      \<and> underscores_ok c cs)"

definition lower :: "char \<Rightarrow> char" where
  "lower c = (case map_of (zip ''ABCDEFGHIJKLMNOPQRSTUVWXYZ'' ''abcdefghijklmnopqrstuvwxyz'') c of
                None \<Rightarrow> c | Some l \<Rightarrow> l)"

text \<open>The sign in front of a number: the sign bit and the rest of the text.\<close>

fun split_sign :: "string \<Rightarrow> bool \<times> string" where
  "split_sign [] = (False, [])"
| "split_sign (c # cs) =
     (if c = CHR ''-'' then (True, cs) else if c = CHR ''+'' then (False, cs) else (False, c # cs))"

text \<open>
  The exponent part: empty, or \<open>e\<close> or \<open>E\<close>, an optional sign and at least one digit.
\<close>

definition parse_exponent :: "string \<Rightarrow> int option" where
  "parse_exponent s =
     (case s of
        [] \<Rightarrow> Some 0
      | c # cs \<Rightarrow>
          if c = CHR ''e'' \<or> c = CHR ''E'' then
            (let (neg, ds) = split_sign cs
             in if ds \<noteq> [] \<and> list_all is_digit ds
                then Some (if neg then - int (nat_of_digits ds) else int (nat_of_digits ds))
                else None)
          else None)"

text \<open>
  The decimal number \<open>ip.fp\<close> with exponent \<open>x\<close> is \<open>ip fp * 10 ^ (x - length fp)\<close>.
\<close>

definition parse_decimal :: "bool \<Rightarrow> string \<Rightarrow> pyfloat option" where
  "parse_decimal s body =
     (let ip = takeWhile is_digit body;
          r1 = dropWhile is_digit body;
          fp = (case r1 of [] \<Rightarrow> [] | c # cs \<Rightarrow> if c = CHR ''.'' then takeWhile is_digit cs else []);
          r2 = (case r1 of [] \<Rightarrow> [] | c # cs \<Rightarrow> if c = CHR ''.'' then dropWhile is_digit cs else r1)
      in if ip = [] \<and> fp = [] then None
         else case parse_exponent r2 of
                None \<Rightarrow> None
              | Some x \<Rightarrow>
                  (let m = nat_of_digits (ip @ fp); t = x - int (length fp)
                   in Some (if 0 \<le> t then to_double s (m * 10 ^ nat t) 1
                            else to_double s m (10 ^ nat (- t)))))"

definition float_of_str :: "string \<Rightarrow> exn + pyfloat" where
  "float_of_str s =
     (if \<not> underscores_ok CHR ''.'' s then Inl ValueError
      else
        let (neg, body) = split_sign (strip (filter (\<lambda>c. c \<noteq> CHR ''_'') s));
            word = map lower body
        in if word = ''inf'' \<or> word = ''infinity'' then Inr (Infinite neg)
           else if word = ''nan'' then Inr NaN
           else case parse_decimal neg body of None \<Rightarrow> Inl ValueError | Some f \<Rightarrow> Inr f)"

section \<open>Strings of values\<close>

text \<open>
  \<^verbatim>\<open>repr(x)\<close> of a float: the shortest decimal digits that convert back to the same
  float, in positional notation when the decimal point lies within 16 digits after and 4
  zeros before the first digit, and with an exponent otherwise.
\<close>

text \<open>The number of zeros between the decimal point and the first digit of \<open>vn / vd < 1\<close>.\<close>

primrec leading_zeros :: "nat \<Rightarrow> nat \<Rightarrow> nat \<Rightarrow> nat" where
  "leading_zeros 0 vn vd = 0"
| "leading_zeros (Suc fuel) vn vd =
     (if vn * 10 < vd then Suc (leading_zeros fuel (vn * 10) vd) else 0)"

text \<open>The position of the decimal point: \<open>10 ^ (k - 1) \<le> vn / vd < 10 ^ k\<close>.\<close>

definition decimal_point :: "nat \<Rightarrow> nat \<Rightarrow> int" where
  "decimal_point vn vd =
     (if vd \<le> vn then int (length (str_nat (vn div vd)))
      else - int (leading_zeros (length (str_nat vd)) vn vd))"

fun same_float :: "pyfloat \<Rightarrow> pyfloat \<Rightarrow> bool" where
  "same_float (Finite s m e) (Finite t n d) =
     (s = t \<and> m * 2 ^ nat (e - min e d) = n * 2 ^ nat (d - min e d))"
| "same_float f g = (f = g)"

text \<open>\<open>c * 10 ^ t\<close> as a float.\<close>

definition decimal_to_double :: "bool \<Rightarrow> nat \<Rightarrow> int \<Rightarrow> pyfloat" where
  "decimal_to_double s c t =
     (if 0 \<le> t then to_double s (c * 10 ^ nat t) 1 else to_double s c (10 ^ nat (- t)))"

text \<open>
  The decimal of \<open>n\<close> digits that converts back to the float \<open>\<plusminus> vn / vd\<close>, if there
  is one: the nearer of the two decimals around the value when both do.
\<close>

definition digits_candidate :: "pyfloat \<Rightarrow> nat \<Rightarrow> nat \<Rightarrow> int \<Rightarrow> nat \<Rightarrow> nat option" where
  "digits_candidate x vn vd k n =
     (let t = k - int n;
          sn = (if t \<le> 0 then vn * 10 ^ nat (- t) else vn);
          sd = (if t \<le> 0 then vd else vd * 10 ^ nat t);
          lo = sn div sd;
          hi = lo + 1;
          s = (case x of Finite b m e \<Rightarrow> b | _ \<Rightarrow> False);
          lo_ok = same_float (decimal_to_double s lo t) x;
          hi_ok = same_float (decimal_to_double s hi t) x
      in if lo_ok \<and> hi_ok then Some (rne_div sn sd)
         else if lo_ok then Some lo
         else if hi_ok then Some hi
         else None)"

definition shortest_digits :: "pyfloat \<Rightarrow> nat \<Rightarrow> nat \<Rightarrow> int \<Rightarrow> nat \<times> nat" where
  "shortest_digits x vn vd k =
     (case List.map_filter (\<lambda>n. map_option (Pair n) (digits_candidate x vn vd k n)) [1..<18] of
        [] \<Rightarrow> (17, rne_div (if k \<le> 17 then vn * 10 ^ nat (17 - k) else vn)
                           (if k \<le> 17 then vd else vd * 10 ^ nat (k - 17)))
      | nc # rest \<Rightarrow> nc)"

definition strip_zeros :: "string \<Rightarrow> string" where
  "strip_zeros ds = rev (dropWhile (\<lambda>c. c = CHR ''0'') (rev ds))"

definition float_repr_finite :: "string \<Rightarrow> int \<Rightarrow> string" where
  "float_repr_finite ds decpt =
     (if - 4 < decpt \<and> decpt \<le> 16 then
        (if decpt \<le> 0 then ''0.'' @ replicate (nat (- decpt)) CHR ''0'' @ ds
         else if nat decpt < length ds then take (nat decpt) ds @ ''.'' @ drop (nat decpt) ds
         else ds @ replicate (nat decpt - length ds) CHR ''0'' @ ''.0'')
      else
        take 1 ds @ (if 1 < length ds then ''.'' @ drop 1 ds else '''')
          @ ''e'' @ (if decpt - 1 < 0 then ''-'' else ''+'')
          @ (if \<bar>decpt - 1\<bar> < 10 then ''0'' else '''') @ str_nat (nat \<bar>decpt - 1\<bar>))"

fun float_repr :: "pyfloat \<Rightarrow> string" where
  "float_repr NaN = ''nan''"
| "float_repr (Infinite s) = (if s then ''-inf'' else ''inf'')"
| "float_repr (Finite s m e) =
     (if s then ''-'' else '''') @
     (if m = 0 then ''0.0''
      else
        let vn = (if 0 \<le> e then m * 2 ^ nat e else m);
            vd = (if 0 \<le> e then 1 else 2 ^ nat (- e));
            k = decimal_point vn vd;
            (n, c) = shortest_digits (Finite s m e) vn vd k;
            ds = str_nat c
        in float_repr_finite (strip_zeros ds) (k + int (length ds) - int n))"

text \<open>
  \<^verbatim>\<open>repr(s)\<close> of a string: in single quotes, or in double quotes when it holds a
  single quote and no double quote; the quote, the backslash and the characters that do
  not print are escaped.
\<close>

definition hex_digit :: "nat \<Rightarrow> char" where
  "hex_digit d = ''0123456789abcdef'' ! d"

definition printable :: "char \<Rightarrow> bool" where
  "printable c =
     (let n = (of_char c :: nat)
      in (32 \<le> n \<and> n < 127) \<or> (161 \<le> n \<and> n \<noteq> 173))"

definition repr_char :: "char \<Rightarrow> char \<Rightarrow> string" where
  "repr_char q c =
     (if c = q \<or> c = CHR 0x5C then [CHR 0x5C, c]
      else if c = CHR 0x09 then [CHR 0x5C, CHR ''t'']
      else if c = CHR 0x0A then [CHR 0x5C, CHR ''n'']
      else if c = CHR 0x0D then [CHR 0x5C, CHR ''r'']
      else if printable c then [c]
      else [CHR 0x5C, CHR ''x'', hex_digit (of_char c div 16), hex_digit (of_char c mod 16)])"

definition repr_str :: "string \<Rightarrow> string" where
  "repr_str s =
     (let q = (if CHR 0x27 \<in> set s \<and> CHR 0x22 \<notin> set s then CHR 0x22 else CHR 0x27)
      in [q] @ concat (map (repr_char q) s) @ [q])"

text \<open>\<^verbatim>\<open>sep.join(parts)\<close>.\<close>

fun join :: "string \<Rightarrow> string list \<Rightarrow> string" where
  "join sep [] = []"
| "join sep [p] = p"
| "join sep (p # ps) = p @ sep @ join sep ps"

fun py_repr :: "pyval \<Rightarrow> string" where
  "py_repr PNone = ''None''"
| "py_repr (PBool b) = (if b then ''True'' else ''False'')"
| "py_repr (PInt i) = str_int i"
| "py_repr (PFloat f) = float_repr f"
| "py_repr (PStr s) = repr_str s"
| "py_repr (PList xs) = ''['' @ join '', '' (map py_repr xs) @ '']''"
| "py_repr (PDict kvs) =
     ''{'' @ join '', '' (map (\<lambda>kv. repr_str (fst kv) @ '': '' @ py_repr (snd kv)) kvs) @ ''}''"

text \<open>\<^verbatim>\<open>str(x)\<close>: a string is itself, every other value prints as its \<^verbatim>\<open>repr\<close>.\<close>

definition py_str :: "pyval \<Rightarrow> string" where
  "py_str v = (case v of PStr s \<Rightarrow> s | _ \<Rightarrow> py_repr v)"

section \<open>Truncation of long values\<close>

text \<open>
  \<^verbatim>\<open>value[:n]\<close> on a sequence: the first \<open>n\<close> elements, and for a negative \<open>n\<close> all
  but the last \<open>-n\<close>.
\<close>

definition slice_to :: "int \<Rightarrow> 'a list \<Rightarrow> 'a list" where
  "slice_to n xs = (if 0 \<le> n then take (nat n) xs else take (length xs - nat (- n)) xs)"

text \<open>
  \<^verbatim>\<open>
  def truncate_value(key: str, value: str, max_length: int = 50) -> str:
      if key == 'data' and len(value) > 20:
          return value[:20] + '...'
      elif len(value) > max_length:
          return value[:max_length] + '...'
      return value
  \<close>
  on a string \<open>value\<close>, as the annotation has it.
\<close>

definition truncate_value :: "string \<Rightarrow> string \<Rightarrow> int \<Rightarrow> string" where
  "truncate_value key val max_length =
     (if key = ''data'' \<and> length val > 20 then slice_to 20 val @ ''...''
      else if int (length val) > max_length then slice_to max_length val @ ''...''
      else val)"

text \<open>
  The same body on a value of any type, as the call with an action's \<^verbatim>\<open>name\<close> can
  pass one: \<^verbatim>\<open>len\<close> raises TypeError on a value without a length, and a list or a
  dictionary that is too long raises TypeError where the slice is joined to the marker
  (the slice of a dictionary raises KeyError from Python 3.12 on).
\<close>

definition truncate_any :: "string \<Rightarrow> pyval \<Rightarrow> int \<Rightarrow> exn + pyval" where
  "truncate_any key val max_length =
     (case val of
        PStr s \<Rightarrow> Inr (PStr (truncate_value key s max_length))
      | PList xs \<Rightarrow>
          if key = ''data'' \<and> length xs > 20 then Inl TypeError
          else if int (length xs) > max_length then Inl TypeError
          else Inr val
      | PDict kvs \<Rightarrow>
          if key = ''data'' \<and> length kvs > 20 then Inl TypeError
          else if int (length kvs) > max_length then Inl TypeError
          else Inr val
      | _ \<Rightarrow> Inl TypeError)"

section \<open>Operations on values\<close>

text \<open>\<^verbatim>\<open>bool(x)\<close>, the test of \<^verbatim>\<open>if x\<close> and \<^verbatim>\<open>not x\<close>.\<close>

definition truthy :: "pyval \<Rightarrow> bool" where
  "truthy v =
     (case v of
        PNone \<Rightarrow> False
      | PBool b \<Rightarrow> b
      | PInt i \<Rightarrow> i \<noteq> 0
      | PFloat f \<Rightarrow> float_nonzero f
      | PStr s \<Rightarrow> s \<noteq> []
      | PList xs \<Rightarrow> xs \<noteq> []
      | PDict kvs \<Rightarrow> kvs \<noteq> [])"

definition is_dict :: "pyval \<Rightarrow> bool" where
  "is_dict v = (case v of PDict kvs \<Rightarrow> True | _ \<Rightarrow> False)"

definition is_list :: "pyval \<Rightarrow> bool" where
  "is_list v = (case v of PList xs \<Rightarrow> True | _ \<Rightarrow> False)"

text \<open>\<^verbatim>\<open>d.get(key, default)\<close> on a dictionary.\<close>

definition dict_get :: "(string \<times> pyval) list \<Rightarrow> string \<Rightarrow> pyval \<Rightarrow> pyval" where
  "dict_get kvs key dflt = (case map_of kvs key of None \<Rightarrow> dflt | Some v \<Rightarrow> v)"

text \<open>
  \<^verbatim>\<open>x.get(key, default)\<close> on any value: only a dictionary has the method, every other
  value raises AttributeError.
\<close>

definition py_get :: "pyval \<Rightarrow> string \<Rightarrow> pyval \<Rightarrow> exn + pyval" where
  "py_get x key dflt =
     (case x of PDict kvs \<Rightarrow> Inr (dict_get kvs key dflt) | _ \<Rightarrow> Inl AttributeError)"

text \<open>\<^verbatim>\<open>x.items()\<close>, likewise.\<close>

definition py_items :: "pyval \<Rightarrow> exn + (string \<times> pyval) list" where
  "py_items x = (case x of PDict kvs \<Rightarrow> Inr kvs | _ \<Rightarrow> Inl AttributeError)"

text \<open>\<^verbatim>\<open>len(x)\<close>.\<close>

definition py_len :: "pyval \<Rightarrow> exn + nat" where
  "py_len x =
     (case x of
        PStr s \<Rightarrow> Inr (length s)
      | PList xs \<Rightarrow> Inr (length xs)
      | PDict kvs \<Rightarrow> Inr (length kvs)
      | _ \<Rightarrow> Inl TypeError)"

text \<open>
  The elements that \<^verbatim>\<open>for e in x\<close> runs over: those of a list, the characters of a
  string, the keys of a dictionary; no other value can be iterated.
\<close>

definition py_iter :: "pyval \<Rightarrow> exn + pyval list" where
  "py_iter x =
     (case x of
        PList xs \<Rightarrow> Inr xs
      | PStr s \<Rightarrow> Inr (map (\<lambda>c. PStr [c]) s)
      | PDict kvs \<Rightarrow> Inr (map (\<lambda>kv. PStr (fst kv)) kvs)
      | _ \<Rightarrow> Inl TypeError)"

text \<open>\<^verbatim>\<open>float(x)\<close>.\<close>

definition py_float :: "pyval \<Rightarrow> exn + pyfloat" where
  "py_float x =
     (case x of
        PFloat f \<Rightarrow> Inr f
      | PInt i \<Rightarrow> float_of_int i
      | PBool b \<Rightarrow> float_of_int (if b then 1 else 0)
      | PStr s \<Rightarrow> float_of_str s
      | _ \<Rightarrow> Inl TypeError)"

text \<open>
  \<^verbatim>\<open>x * n\<close> for an integer \<open>n\<close>: a product of numbers, or a string or a list
  repeated \<open>n\<close> times.
\<close>

definition py_mul_int :: "pyval \<Rightarrow> int \<Rightarrow> exn + pyval" where
  "py_mul_int x n =
     (case x of
        PBool b \<Rightarrow> Inr (PInt ((if b then 1 else 0) * n))
      | PInt i \<Rightarrow> Inr (PInt (i * n))
      | PFloat f \<Rightarrow> bind_exn (float_of_int n) (\<lambda>g. Inr (PFloat (float_mul f g)))
      | PStr s \<Rightarrow> Inr (PStr (concat (replicate (nat n) s)))
      | PList xs \<Rightarrow> Inr (PList (concat (replicate (nat n) xs)))
      | _ \<Rightarrow> Inl TypeError)"

text \<open>
  \<^verbatim>\<open>format(x, '.pf')\<close>, the conversion of \<^verbatim>\<open>f"{x:.pf}"\<close>: an integer is
  converted to a float first; a string raises ValueError, any other value TypeError.
\<close>

definition py_format_f :: "nat \<Rightarrow> pyval \<Rightarrow> exn + string" where
  "py_format_f p x =
     (case x of
        PFloat f \<Rightarrow> Inr (format_f p f)
      | PInt i \<Rightarrow> bind_exn (float_of_int i) (\<lambda>f. Inr (format_f p f))
      | PBool b \<Rightarrow> bind_exn (float_of_int (if b then 1 else 0)) (\<lambda>f. Inr (format_f p f))
      | PStr s \<Rightarrow> Inl ValueError
      | _ \<Rightarrow> Inl TypeError)"

section \<open>Cells of the tables\<close>

text \<open>
  \<^verbatim>\<open>f"${float(balance_usd):.2f}" if balance_usd else 'N/A'\<close>, the same expression in
  three formatters.
\<close>

definition balance_usd_formatted :: "pyval \<Rightarrow> exn + string" where
  "balance_usd_formatted balance_usd =
     (if truthy balance_usd
      then bind_exn (py_float balance_usd) (\<lambda>f. Inr (''$'' @ format_f 2 f))
      else Inr ''N/A'')"

text \<open>\<^verbatim>\<open>f"{apy * 100:.2f}%" if apy else 'N/A'\<close>.\<close>

definition apy_formatted :: "pyval \<Rightarrow> exn + string" where
  "apy_formatted apy =
     (if truthy apy
      then bind_exn (py_mul_int apy 100) (\<lambda>p.
           bind_exn (py_format_f 2 p) (\<lambda>s. Inr (s @ ''%'')))
      else Inr ''N/A'')"

text \<open>\<^verbatim>\<open>f"{float(balance_native):.6f} {symbol}" if balance_native else 'N/A'\<close>.\<close>

definition balance_formatted :: "pyval \<Rightarrow> pyval \<Rightarrow> exn + string" where
  "balance_formatted balance_native symbol =
     (if truthy balance_native
      then bind_exn (py_float balance_native) (\<lambda>f. Inr (format_f 6 f @ '' '' @ py_str symbol))
      else Inr ''N/A'')"

text \<open>
  \<^verbatim>\<open>vault_name[:n] + '...' if len(vault_name) > n else vault_name\<close>, with \<open>n\<close> 18 for a
  deposit option and 16 for a position. A list or a dictionary longer than \<open>n\<close> raises
  TypeError (the slice of a dictionary raises KeyError from Python 3.12 on).
\<close>

definition vault_name_short :: "nat \<Rightarrow> pyval \<Rightarrow> exn + pyval" where
  "vault_name_short n vault_name =
     bind_exn (py_len vault_name) (\<lambda>l.
       if l > n then
         (case vault_name of
            PStr s \<Rightarrow> Inr (PStr (take n s @ ''...''))
          | _ \<Rightarrow> Inl TypeError)
       else Inr vault_name)"

section \<open>The formatters\<close>

text \<open>
  A formatter returns a string: one of its fixed messages, or the text that the
  \<^verbatim>\<open>tabulate\<close> library draws from the rows and the headers it is given. Drawing
  the grid is the library's work, so the second kind of result is kept as the call:
  \<open>Tabulated prefix table_data headers maxcolwidths\<close> is \<open>prefix\<close> followed by
  \<^verbatim>\<open>tabulate(table_data, headers=headers, tablefmt='grid')\<close>, with the argument
  \<^verbatim>\<open>maxcolwidths\<close> when there is one. A cell of a row is a value, as the code hands
  it to the library.
\<close>

datatype report =
    Message string
  | Tabulated string "pyval list list" "string list" "nat list option"

subsection \<open>\<^verbatim>\<open>format_transaction_blob\<close>\<close>

text \<open>
  The loop over \<^verbatim>\<open>transaction.items()\<close>: the key \<^verbatim>\<open>actions\<close> is skipped, a value
  that is \<^verbatim>\<open>None\<close> or the empty string gives \<open>N/A\<close>, any other value is printed and
  truncated.
\<close>

fun properties_loop :: "(string \<times> pyval) list \<Rightarrow> pyval list list \<Rightarrow> pyval list list" where
  "properties_loop [] table_data = table_data"
| "properties_loop ((key, val) # rest) table_data =
     (if key = ''actions'' then properties_loop rest table_data
      else if val = PNone \<or> val = PStr '''' then
        properties_loop rest (table_data @ [[PStr key, PStr ''N/A'']])
      else
        properties_loop rest (table_data @ [[PStr key, PStr (truncate_value key (py_str val) 50)]]))"

text \<open>
  The rows that the body of the loop over the actions appends for the action at index
  \<open>i\<close> of \<open>n\<close> actions.
\<close>

definition action_rows :: "nat \<Rightarrow> nat \<Rightarrow> pyval \<Rightarrow> exn + pyval list list" where
  "action_rows n i action =
     (if is_dict action then
        bind_exn (py_get action ''name'' (PStr (''Action '' @ str_nat (i + 1)))) (\<lambda>action_name.
        bind_exn (truncate_any ''name'' action_name 60) (\<lambda>truncated_name.
        bind_exn (py_get action ''tx'' (PDict [])) (\<lambda>tx_details.
        bind_exn (py_items tx_details) (\<lambda>items.
        Inr ([[PStr (''Action '' @ str_nat (i + 1)), truncated_name]]
             @ map (\<lambda>kv. [PStr (''  '' @ fst kv), PStr (truncate_value (fst kv) (py_str (snd kv)) 50)]) items
             @ (if int i < int n - 1 then [[PStr '''', PStr '''']] else []))))))
      else
        Inr [[PStr (''Action '' @ str_nat (i + 1)),
              PStr (truncate_value ''action'' (py_str action) 50)]])"

fun actions_loop :: "nat \<Rightarrow> nat \<Rightarrow> pyval list \<Rightarrow> pyval list list \<Rightarrow> exn + pyval list list" where
  "actions_loop n i [] table_data = Inr table_data"
| "actions_loop n i (action # rest) table_data =
     (case action_rows n i action of
        Inl e \<Rightarrow> Inl e
      | Inr rows \<Rightarrow> actions_loop n (Suc i) rest (table_data @ rows))"

text \<open>The table data of a transaction that is a dictionary with the items \<open>kvs\<close>.\<close>

definition transaction_table_data :: "(string \<times> pyval) list \<Rightarrow> exn + pyval list list" where
  "transaction_table_data kvs =
     (let table_data = properties_loop kvs []
      in case map_of kvs ''actions'' of
           Some (PList actions) \<Rightarrow>
             actions_loop (length actions) 0 actions
               (table_data @ [[PStr '''', PStr ''''],
                              [PStr ''Total Actions'', PStr (str_nat (length actions))],
                              [PStr '''', PStr '''']])
         | _ \<Rightarrow> Inr table_data)"

text \<open>
  The banner in front of the table: a line feed, the emoji U+1F3AF (written as the four
  bytes of its UTF-8 encoding, as no character of a HOL string can hold it), the title
  and a line feed.
\<close>

definition banner :: string where
  "banner = [CHR 0x0A, CHR 0xF0, CHR 0x9F, CHR 0x8E, CHR 0xAF] @ '' Generated Transaction Blob:'' @ [CHR 0x0A]"

text \<open>
  The call \<^verbatim>\<open>tabulate(table_data, headers=['Property', 'Value'], tablefmt='grid',
  maxcolwidths=[20, 60])\<close> of line 76. With \<^verbatim>\<open>maxcolwidths\<close> the library reads the
  first row for the number of columns and wraps the text of the cells before it draws
  them, and it raises on some tables (tabulate 0.9.0 does on a table without rows, with
  IndexError, and on a cell that reads \<open>True\<close> or \<open>False\<close>, with AttributeError). What
  the library raises is not written in this repository, so it is a parameter of the
  formatter: \<open>tabulate_error table_data\<close> is the exception that the call raises on the
  rows \<open>table_data\<close>, if it raises one. The exception is not caught, and the formatter
  raises it in turn.
\<close>

definition tabulate_wrapped :: "(pyval list list \<rightharpoonup> exn) \<Rightarrow> pyval list list \<Rightarrow> exn + report" where
  "tabulate_wrapped tabulate_error table_data =
     (case tabulate_error table_data of
        Some e \<Rightarrow> Inl e
      | None \<Rightarrow> Inr (Tabulated banner table_data [''Property'', ''Value''] (Some [20, 60])))"

definition format_transaction_blob :: "(pyval list list \<rightharpoonup> exn) \<Rightarrow> pyval \<Rightarrow> exn + report" where
  "format_transaction_blob tabulate_error transaction =
     (if \<not> truthy transaction \<or> \<not> is_dict transaction
      then Inr (Message ''No transaction data available'')
      else
        bind_exn (py_items transaction) (\<lambda>kvs.
        bind_exn (transaction_table_data kvs) (\<lambda>table_data.
        tabulate_wrapped tabulate_error table_data)))"

subsection \<open>\<^verbatim>\<open>format_deposit_options\<close>\<close>

definition deposit_headers :: "string list" where
  "deposit_headers = [''Asset'', ''Balance USD'', ''Network'', ''Vault Name'', ''Protocol'', ''APY'']"

text \<open>The row that the body of the inner loop appends for one option of one balance.\<close>

definition deposit_option_row :: "pyval \<Rightarrow> pyval \<Rightarrow> exn + pyval list" where
  "deposit_option_row balance option =
     bind_exn (py_get balance ''asset'' (PDict [])) (\<lambda>asset.
     bind_exn (py_get asset ''symbol'' (PStr ''N/A'')) (\<lambda>asset_symbol.
     bind_exn (py_get balance ''asset'' (PDict [])) (\<lambda>asset'.
     bind_exn (py_get asset' ''balanceUsd'' PNone) (\<lambda>balance_usd.
     bind_exn (balance_usd_formatted balance_usd) (\<lambda>usd.
     bind_exn (py_get option ''network'' (PDict [])) (\<lambda>network.
     bind_exn (py_get network ''name'' (PStr ''N/A'')) (\<lambda>network_name.
     bind_exn (py_get option ''name'' (PStr ''N/A'')) (\<lambda>vault_name.
     bind_exn (vault_name_short 18 vault_name) (\<lambda>short.
     bind_exn (py_get option ''protocol'' (PDict [])) (\<lambda>protocol.
     bind_exn (py_get protocol ''name'' (PStr ''N/A'')) (\<lambda>protocol_name.
     bind_exn (py_get option ''apy'' (PDict [])) (\<lambda>apy_dict.
     bind_exn (py_get apy_dict ''total'' PNone) (\<lambda>apy.
     bind_exn (apy_formatted apy) (\<lambda>apy_text.
     Inr [asset_symbol, PStr usd, network_name, short, protocol_name, PStr apy_text]))))))))))))))"

fun options_loop :: "pyval \<Rightarrow> pyval list \<Rightarrow> pyval list list \<Rightarrow> exn + pyval list list" where
  "options_loop balance [] table_data = Inr table_data"
| "options_loop balance (option # rest) table_data =
     (case deposit_option_row balance option of
        Inl e \<Rightarrow> Inl e
      | Inr row \<Rightarrow> options_loop balance rest (table_data @ [row]))"

text \<open>The options that the inner loop runs over: \<^verbatim>\<open>balance.get('depositOptions', [])\<close>.\<close>

definition options_of :: "pyval \<Rightarrow> exn + pyval list" where
  "options_of balance = bind_exn (py_get balance ''depositOptions'' (PList [])) py_iter"

fun balances_loop :: "pyval list \<Rightarrow> pyval list list \<Rightarrow> exn + pyval list list" where
  "balances_loop [] table_data = Inr table_data"
| "balances_loop (balance # rest) table_data =
     (case options_of balance of
        Inl e \<Rightarrow> Inl e
      | Inr options \<Rightarrow>
          (case options_loop balance options table_data of
             Inl e \<Rightarrow> Inl e
           | Inr table_data' \<Rightarrow> balances_loop rest table_data'))"

definition format_deposit_options :: "pyval \<Rightarrow> exn + report" where
  "format_deposit_options deposit_options_response =
     (if \<not> truthy deposit_options_response then Inr (Message ''No deposit options available'')
      else
        bind_exn (py_get deposit_options_response ''userBalances'' PNone) (\<lambda>user_balances.
        if \<not> truthy user_balances then Inr (Message ''No deposit options available'')
        else
          bind_exn (py_get deposit_options_response ''userBalances'' (PList [])) (\<lambda>user_balances'.
          bind_exn (py_iter user_balances') (\<lambda>balances.
          bind_exn (balances_loop balances []) (\<lambda>table_data.
          Inr (Tabulated '''' table_data deposit_headers None))))))"

subsection \<open>\<^verbatim>\<open>format_positions\<close>\<close>

definition position_headers :: "string list" where
  "position_headers = [''Network'', ''Protocol'', ''Vault Name'', ''Asset'', ''Balance USD'', ''APY'']"

text \<open>The row that the body of the loop appends for one position.\<close>

definition position_row :: "pyval \<Rightarrow> exn + pyval list" where
  "position_row position =
     bind_exn (py_get position ''network'' (PDict [])) (\<lambda>network.
     bind_exn (py_get network ''name'' (PStr ''N/A'')) (\<lambda>network_name.
     bind_exn (py_get position ''protocol'' (PDict [])) (\<lambda>protocol.
     bind_exn (py_get protocol ''name'' (PStr ''N/A'')) (\<lambda>protocol_name.
     bind_exn (py_get position ''name'' (PStr ''Unknown Vault'')) (\<lambda>vault_name.
     bind_exn (vault_name_short 16 vault_name) (\<lambda>short.
     bind_exn (py_get position ''asset'' (PDict [])) (\<lambda>asset.
     bind_exn (py_get asset ''symbol'' (PStr ''N/A'')) (\<lambda>asset_symbol.
     bind_exn (py_get position ''asset'' (PDict [])) (\<lambda>asset'.
     bind_exn (py_get asset' ''balanceUsd'' PNone) (\<lambda>balance_usd.
     bind_exn (balance_usd_formatted balance_usd) (\<lambda>usd.
     bind_exn (py_get position ''apy'' (PDict [])) (\<lambda>apy_dict.
     bind_exn (py_get apy_dict ''total'' PNone) (\<lambda>apy.
     bind_exn (apy_formatted apy) (\<lambda>apy_text.
     Inr [network_name, protocol_name, short, asset_symbol, PStr usd, PStr apy_text]))))))))))))))"

text \<open>
  The loop, on the state it changes: the table data and the flag \<^verbatim>\<open>has_positions\<close>.
\<close>

fun positions_loop ::
  "pyval list \<Rightarrow> pyval list list \<times> bool \<Rightarrow> exn + pyval list list \<times> bool" where
  "positions_loop [] (table_data, has_positions) = Inr (table_data, has_positions)"
| "positions_loop (position # rest) (table_data, has_positions) =
     (case position_row position of
        Inl e \<Rightarrow> Inl e
      | Inr row \<Rightarrow> positions_loop rest (table_data @ [row], True))"

definition format_positions :: "pyval \<Rightarrow> exn + report" where
  "format_positions positions =
     (if \<not> truthy positions then Inr (Message ''No positions available'')
      else
        bind_exn (py_get positions ''data'' PNone) (\<lambda>data.
        if \<not> truthy data then Inr (Message ''No positions available'')
        else
          bind_exn (py_get positions ''data'' PNone) (\<lambda>data'.
          if \<not> is_list data' then Inr (Message ''No positions available'')
          else
            bind_exn (py_get positions ''data'' (PList [])) (\<lambda>data''.
            bind_exn (py_iter data'') (\<lambda>entries.
            bind_exn (positions_loop entries ([], False)) (\<lambda>(table_data, has_positions).
            if has_positions then Inr (Tabulated '''' table_data position_headers None)
            else Inr (Message ''No active positions found'')))))))"

subsection \<open>\<^verbatim>\<open>format_user_balances\<close>\<close>

definition balance_headers :: "string list" where
  "balance_headers = [''Asset'', ''Balance'', ''Balance USD'', ''Network'']"

definition balance_row :: "pyval \<Rightarrow> exn + pyval list" where
  "balance_row asset =
     bind_exn (py_get asset ''symbol'' (PStr ''N/A'')) (\<lambda>symbol.
     bind_exn (py_get asset ''balanceNative'' PNone) (\<lambda>balance_native.
     bind_exn (balance_formatted balance_native symbol) (\<lambda>native.
     bind_exn (py_get asset ''balanceUsd'' PNone) (\<lambda>balance_usd.
     bind_exn (balance_usd_formatted balance_usd) (\<lambda>usd.
     bind_exn (py_get asset ''network'' (PDict [])) (\<lambda>network.
     bind_exn (py_get network ''name'' (PStr ''N/A'')) (\<lambda>network_name.
     Inr [symbol, PStr native, PStr usd, network_name])))))))"

fun user_balances_loop ::
  "pyval list \<Rightarrow> pyval list list \<times> bool \<Rightarrow> exn + pyval list list \<times> bool" where
  "user_balances_loop [] (table_data, has_balances) = Inr (table_data, has_balances)"
| "user_balances_loop (asset # rest) (table_data, has_balances) =
     (case balance_row asset of
        Inl e \<Rightarrow> Inl e
      | Inr row \<Rightarrow> user_balances_loop rest (table_data @ [row], True))"

definition format_user_balances :: "pyval \<Rightarrow> exn + report" where
  "format_user_balances idle_assets =
     (if \<not> truthy idle_assets then Inr (Message ''No idle assets available'')
      else
        bind_exn (py_get idle_assets ''data'' PNone) (\<lambda>data.
        if \<not> truthy data then Inr (Message ''No idle assets available'')
        else
          bind_exn (py_get idle_assets ''data'' PNone) (\<lambda>data'.
          if \<not> is_list data' then Inr (Message ''No idle assets available'')
          else
            bind_exn (py_get idle_assets ''data'' (PList [])) (\<lambda>data''.
            bind_exn (py_iter data'') (\<lambda>entries.
            bind_exn (user_balances_loop entries ([], False)) (\<lambda>(table_data, has_balances).
            if has_balances then Inr (Tabulated '''' table_data balance_headers None)
            else Inr (Message ''No idle assets found'')))))))"

section \<open>The workflow driver\<close>

text \<open>
  Step 1 of \<^verbatim>\<open>run_example_implementation\<close> is \<^verbatim>\<open>get_best_deposit_options\<close>. Inside
  a \<^verbatim>\<open>try\<close> it asks the client for the deposit options, prints them as
  \<^verbatim>\<open>format_deposit_options\<close> formats them, and returns them; any exception raised on
  the way, by the client or by the formatter, is caught, and the function returns
  \<^verbatim>\<open>None\<close>. \<open>fetched\<close> is what the call of the client gave: the response, or the
  exception it raised.
\<close>

definition get_best_deposit_options :: "exn + pyval \<Rightarrow> pyval" where
  "get_best_deposit_options fetched =
     (case bind_exn fetched (\<lambda>deposit_options.
             bind_exn (format_deposit_options deposit_options) (\<lambda>printed.
             Inr deposit_options)) of
        Inl e \<Rightarrow> PNone
      | Inr deposit_options \<Rightarrow> deposit_options)"

text \<open>
  Step 2 starts from \<^verbatim>\<open>top_options\<close>, the value that step 1 returned.
  \<^verbatim>\<open>x[i]\<close> on a list or a string is the element at \<open>i\<close>, raising IndexError out of
  range; on a dictionary with string keys the integer is no key (KeyError); no other
  value can be indexed.
\<close>

definition py_index :: "pyval \<Rightarrow> nat \<Rightarrow> exn + pyval" where
  "py_index x i =
     (case x of
        PList xs \<Rightarrow> if i < length xs then Inr (xs ! i) else Inl IndexError
      | PStr s \<Rightarrow> if i < length s then Inr (PStr [s ! i]) else Inl IndexError
      | PDict kvs \<Rightarrow> Inl KeyError
      | _ \<Rightarrow> Inl TypeError)"

text \<open>
  The deposit option that the driver binds to \<^verbatim>\<open>first_deposit_option\<close> (lines 278 to
  289), together with the balance entry it belongs to; \<open>None\<close> on the branches that
  print that there are no, or not enough, deposit options.
\<close>

definition first_deposit_option :: "pyval \<Rightarrow> exn + (pyval \<times> pyval) option" where
  "first_deposit_option top_options =
     bind_exn (if truthy top_options then py_get top_options ''userBalances'' (PList [])
               else Inr (PList [])) (\<lambda>user_balances.
     if \<not> truthy user_balances then Inr None
     else
       bind_exn (py_len user_balances) (\<lambda>l.
       if \<not> l > 0 then Inr None
       else
         bind_exn (py_index user_balances 0) (\<lambda>first_asset.
         bind_exn (py_get first_asset ''depositOptions'' (PList [])) (\<lambda>deposit_options.
         bind_exn (py_len deposit_options) (\<lambda>n.
         if n \<ge> 3 then
           bind_exn (py_index deposit_options 2) (\<lambda>option. Inr (Some (first_asset, option)))
         else Inr None)))))"

text \<open>
  Steps 1 and 2 of the driver, from what the client gave (lines 275 to 319): the
  driver requests the deposit transaction for the vault of the selected option, the
  asset of the first balance entry and the network of the option, or reports that an
  address is missing, or has no option to go on with.
\<close>

datatype step2 =
    Generate pyval pyval pyval   \<comment> \<open>vault address, network, asset address\<close>
  | Missing_address pyval pyval  \<comment> \<open>vault address, asset address\<close>
  | No_selection

definition deposit_network :: "pyval \<Rightarrow> exn + pyval" where
  "deposit_network option =
     bind_exn (py_get option ''network'' PNone) (\<lambda>network_data.
     if truthy network_data then
       (case network_data of
          PStr s \<Rightarrow> Inr (PStr s)
        | PDict kvs \<Rightarrow> Inr (dict_get kvs ''name'' (PStr ''mainnet''))
        | _ \<Rightarrow> Inr (PStr ''mainnet''))
     else Inr (PStr ''mainnet''))"

definition deposit_step :: "exn + pyval \<Rightarrow> exn + step2" where
  "deposit_step fetched =
     bind_exn (first_deposit_option (get_best_deposit_options fetched)) (\<lambda>sel.
     case sel of
       None \<Rightarrow> Inr No_selection
     | Some (first_asset, option) \<Rightarrow>
         bind_exn (py_get option ''name'' (PStr ''Unknown vault'')) (\<lambda>vault_name.
         bind_exn (py_get option ''address'' PNone) (\<lambda>vault_address.
         bind_exn (py_get first_asset ''asset'' (PDict [])) (\<lambda>asset.
         bind_exn (py_get asset ''address'' PNone) (\<lambda>asset_address.
         bind_exn (deposit_network option) (\<lambda>network.
         if truthy vault_address \<and> truthy asset_address
         then Inr (Generate vault_address network asset_address)
         else Inr (Missing_address vault_address asset_address)))))))"

section \<open>Payloads of the expected shape\<close>

text \<open>
  The shapes that the formatters read without raising: any field may be missing, and a
  field that is present has the type of the data model. \<open>field_ok P kvs key\<close> says so
  for one field of a dictionary.
\<close>

definition field_ok :: "(pyval \<Rightarrow> bool) \<Rightarrow> (string \<times> pyval) list \<Rightarrow> string \<Rightarrow> bool" where
  "field_ok P kvs key = (case map_of kvs key of None \<Rightarrow> True | Some v \<Rightarrow> P v)"

definition is_str :: "pyval \<Rightarrow> bool" where
  "is_str v = (case v of PStr s \<Rightarrow> True | _ \<Rightarrow> False)"

definition is_object :: "((string \<times> pyval) list \<Rightarrow> bool) \<Rightarrow> pyval \<Rightarrow> bool" where
  "is_object P v = (case v of PDict kvs \<Rightarrow> P kvs | _ \<Rightarrow> False)"

text \<open>
  A balance: \<^verbatim>\<open>None\<close>, a float, an integer in the range of the floats, or a string
  that is empty or reads as a float.
\<close>

definition amount_ok :: "pyval \<Rightarrow> bool" where
  "amount_ok v =
     (case v of
        PNone \<Rightarrow> True
      | PFloat f \<Rightarrow> True
      | PInt i \<Rightarrow> \<not> isl (float_of_int i)
      | PStr s \<Rightarrow> if s = [] then True else \<not> isl (float_of_str s)
      | _ \<Rightarrow> False)"

text \<open>
  A yield: \<^verbatim>\<open>None\<close>, a float, or an integer whose hundredfold is in the range of the
  floats.
\<close>

definition apy_total_ok :: "pyval \<Rightarrow> bool" where
  "apy_total_ok v =
     (case v of
        PNone \<Rightarrow> True
      | PFloat f \<Rightarrow> True
      | PInt i \<Rightarrow> \<not> isl (float_of_int (i * 100))
      | _ \<Rightarrow> False)"

definition wf_asset :: "pyval \<Rightarrow> bool" where
  "wf_asset = is_object (\<lambda>kvs. field_ok amount_ok kvs ''balanceUsd'')"

definition wf_apy :: "pyval \<Rightarrow> bool" where
  "wf_apy = is_object (\<lambda>kvs. field_ok apy_total_ok kvs ''total'')"

definition wf_deposit_option :: "pyval \<Rightarrow> bool" where
  "wf_deposit_option =
     is_object (\<lambda>kvs. field_ok is_dict kvs ''network'' \<and> field_ok is_str kvs ''name''
                  \<and> field_ok is_dict kvs ''protocol'' \<and> field_ok wf_apy kvs ''apy'')"

definition wf_options :: "pyval \<Rightarrow> bool" where
  "wf_options v = (case v of PList options \<Rightarrow> list_all wf_deposit_option options | _ \<Rightarrow> False)"

definition wf_balance_entry :: "pyval \<Rightarrow> bool" where
  "wf_balance_entry =
     is_object (\<lambda>kvs. field_ok wf_asset kvs ''asset'' \<and> field_ok wf_options kvs ''depositOptions'')"

definition wf_user_balances :: "pyval \<Rightarrow> bool" where
  "wf_user_balances v =
     (case v of PList balances \<Rightarrow> list_all wf_balance_entry balances | _ \<Rightarrow> \<not> truthy v)"

definition wf_deposit_response :: "pyval \<Rightarrow> bool" where
  "wf_deposit_response v =
     (case v of PDict kvs \<Rightarrow> field_ok wf_user_balances kvs ''userBalances'' | _ \<Rightarrow> \<not> truthy v)"

definition wf_position :: "pyval \<Rightarrow> bool" where
  "wf_position =
     is_object (\<lambda>kvs. field_ok is_dict kvs ''network'' \<and> field_ok is_dict kvs ''protocol''
                  \<and> field_ok is_str kvs ''name'' \<and> field_ok wf_asset kvs ''asset''
                  \<and> field_ok wf_apy kvs ''apy'')"

definition wf_position_data :: "pyval \<Rightarrow> bool" where
  "wf_position_data v = (case v of PList entries \<Rightarrow> list_all wf_position entries | _ \<Rightarrow> True)"

definition wf_positions :: "pyval \<Rightarrow> bool" where
  "wf_positions v =
     (case v of PDict kvs \<Rightarrow> field_ok wf_position_data kvs ''data'' | _ \<Rightarrow> \<not> truthy v)"

definition wf_idle_asset :: "pyval \<Rightarrow> bool" where
  "wf_idle_asset =
     is_object (\<lambda>kvs. field_ok amount_ok kvs ''balanceNative'' \<and> field_ok amount_ok kvs ''balanceUsd''
                  \<and> field_ok is_dict kvs ''network'')"

definition wf_idle_data :: "pyval \<Rightarrow> bool" where
  "wf_idle_data v = (case v of PList entries \<Rightarrow> list_all wf_idle_asset entries | _ \<Rightarrow> True)"

definition wf_idle_assets :: "pyval \<Rightarrow> bool" where
  "wf_idle_assets v =
     (case v of PDict kvs \<Rightarrow> field_ok wf_idle_data kvs ''data'' | _ \<Rightarrow> \<not> truthy v)"

definition wf_action :: "pyval \<Rightarrow> bool" where
  "wf_action v =
     (case v of
        PDict kvs \<Rightarrow> field_ok is_str kvs ''name'' \<and> field_ok is_dict kvs ''tx''
      | _ \<Rightarrow> True)"

definition wf_actions :: "pyval \<Rightarrow> bool" where
  "wf_actions v = (case v of PList actions \<Rightarrow> list_all wf_action actions | _ \<Rightarrow> True)"

definition wf_transaction :: "pyval \<Rightarrow> bool" where
  "wf_transaction v = (case v of PDict kvs \<Rightarrow> field_ok wf_actions kvs ''actions'' | _ \<Rightarrow> True)"

text \<open>\<^verbatim>\<open>len(balance['depositOptions'])\<close>, and 0 where the entry has no options to run over.\<close>

definition option_count :: "pyval \<Rightarrow> nat" where
  "option_count balance = (case options_of balance of Inl e \<Rightarrow> 0 | Inr options \<Rightarrow> length options)"

text \<open>A balance entry whose \<^verbatim>\<open>depositOptions\<close> are missing or an empty list.\<close>

definition no_options :: "pyval \<Rightarrow> bool" where
  "no_options balance =
     (case balance of
        PDict kvs \<Rightarrow> (case map_of kvs ''depositOptions'' of None \<Rightarrow> True | Some v \<Rightarrow> v = PList [])
      | _ \<Rightarrow> False)"

text \<open>
  The rows are those that \<open>row\<close> gives for the entries: one row for each entry, in the
  order of the entries.
\<close>

definition rows_for :: "('a \<Rightarrow> exn + 'b) \<Rightarrow> 'a list \<Rightarrow> 'b list \<Rightarrow> bool" where
  "rows_for row entries rows = list_all2 (\<lambda>e r. row e = Inr r) entries rows"

text \<open>
  The rows of one balance entry: those of its deposit options, in their order.
\<close>

definition entry_rows :: "pyval \<Rightarrow> pyval list list \<Rightarrow> bool" where
  "entry_rows balance rows =
     (case options_of balance of
        Inl e \<Rightarrow> False
      | Inr options \<Rightarrow> rows_for (deposit_option_row balance) options rows)"

section \<open>Example payloads of the expected shape\<close>

text \<open>
  Two balance entries, with two deposit options and with one; two idle assets; two
  positions. In each the last entry leaves most fields out.
\<close>

definition usdc_entry :: pyval where
  "usdc_entry =
     PDict [(''asset'', PDict [(''symbol'', PStr ''USDC''), (''balanceUsd'', PStr ''1234.5'')]),
            (''depositOptions'', PList
               [PDict [(''name'', PStr ''Vault A''),
                       (''network'', PDict [(''name'', PStr ''mainnet'')]),
                       (''protocol'', PDict [(''name'', PStr ''Aave'')]),
                       (''apy'', PDict [(''total'', PFloat (Finite False 5487185785988212 (- 55)))])],
                PDict [(''name'', PStr ''Vault B'')]])]"

definition usds_entry :: pyval where
  "usds_entry =
     PDict [(''asset'', PDict [(''symbol'', PStr ''USDS'')]),
            (''depositOptions'', PList [PDict [(''name'', PStr ''A vault with a long name'')]])]"

definition two_entries :: pyval where
  "two_entries = PDict [(''userBalances'', PList [usdc_entry, usds_entry])]"

definition two_assets :: "pyval list" where
  "two_assets =
     [PDict [(''symbol'', PStr ''USDC''), (''balanceNative'', PStr ''1234.5''),
             (''balanceUsd'', PStr ''1234.5''), (''network'', PDict [(''name'', PStr ''base'')])],
      PDict [(''symbol'', PStr ''ETH'')]]"

definition two_positions :: "pyval list" where
  "two_positions =
     [PDict [(''name'', PStr ''A vault with a long name''),
             (''network'', PDict [(''name'', PStr ''mainnet'')]),
             (''protocol'', PDict [(''name'', PStr ''Aave'')]),
             (''asset'', PDict [(''symbol'', PStr ''USDC''), (''balanceUsd'', PStr ''1234.5'')]),
             (''apy'', PDict [(''total'', PFloat (Finite False 5487185785988212 (- 55)))])],
      PDict []]"

text \<open>
  A transaction with three actions: a dictionary, a string, and an empty dictionary.
\<close>

definition example_actions :: "pyval list" where
  "example_actions =
     [PDict [(''name'', PStr ''Approve''),
             (''tx'', PDict [(''to'', PStr ''0xabc''),
                             (''data'', PStr ''0x1234567890abcdef1234567890'')])],
      PStr ''skip'',
      PDict []]"

definition example_transaction :: "(string \<times> pyval) list" where
  "example_transaction =
     [(''to'', PStr ''0xabc''), (''value'', PInt 0), (''gas'', PNone),
      (''actions'', PList example_actions)]"

section \<open>An example payload\<close>

text \<open>
  A response with one balance entry and three deposit options, listed from the highest
  yield to the lowest.
\<close>

definition three_options :: "pyval list" where
  "three_options =
     [PDict [(''name'', PStr ''high''), (''address'', PStr ''0x1''),
             (''apy'', PDict [(''total'', PInt 3)])],
      PDict [(''name'', PStr ''middle''), (''address'', PStr ''0x2''),
             (''apy'', PDict [(''total'', PInt 2)])],
      PDict [(''name'', PStr ''low''), (''address'', PStr ''0x3''),
             (''network'', PDict [(''name'', PStr ''base'')]),
             (''apy'', PDict [(''total'', PInt 1)])]]"

definition example_entry :: "(string \<times> pyval) list" where
  "example_entry =
     [(''asset'', PDict [(''symbol'', PStr ''USDC''), (''address'', PStr ''0xA'')]),
      (''depositOptions'', PList three_options)]"

definition example_response :: "(string \<times> pyval) list" where
  "example_response = [(''userBalances'', PList [PDict example_entry])]"

text \<open>
  A response whose first balance entry has three deposit options, the name of the first
  being null: \<^verbatim>\<open>format_deposit_options\<close> raises on it.
\<close>

definition unnamed_response :: "(string \<times> pyval) list" where
  "unnamed_response =
     [(''userBalances'', PList
        [PDict [(''asset'', PDict [(''symbol'', PStr ''USDC''), (''address'', PStr ''0xA'')]),
                (''depositOptions'', PList
                   [PDict [(''name'', PNone), (''address'', PStr ''0x1'')],
                    PDict [(''name'', PStr ''middle''), (''address'', PStr ''0x2'')],
                    PDict [(''name'', PStr ''low''), (''address'', PStr ''0x3'')]])]])]"

section \<open>Properties of truncation\<close>

lemma slice_to_prefix:
  "0 \<le> n \<Longrightarrow> n < int (length xs) \<Longrightarrow> slice_to n (slice_to n xs @ ys) = slice_to n xs"
  by (simp add: slice_to_def)

lemma length_slice_to:
  "0 \<le> n \<Longrightarrow> int (length xs) > n \<Longrightarrow> length (slice_to n xs) = nat n"
  by (simp add: slice_to_def)

text \<open>
  C6, the claim as stated: truncating twice is the same as truncating once, for every
  key, string and maximal length. It fails for the key \<open>data\<close> with a maximal length of
  18: a value of 19 characters is cut to 18 characters and the marker, 21 characters in
  all, which the second pass cuts again by the rule for \<open>data\<close>, to 20 characters and a
  second marker.
\<close>

theorem truncate_value_not_idempotent:
  "truncate_value ''data'' (truncate_value ''data'' ''0123456789abcdefghi'' 18) 18
     = ''0123456789abcdefgh.....''
   \<and> truncate_value ''data'' ''0123456789abcdefghi'' 18 = ''0123456789abcdefgh...''"
  by (simp add: truncate_value_def slice_to_def)

text \<open>
  C6, amended: truncation is idempotent whenever the maximal length is at least 20, or
  is not negative and the key is not \<open>data\<close>; this covers the lengths 50 and 60 that
  the formatter passes. On re-application the marker is not doubled and the result is
  no longer than the bound plus the three characters of the marker.
\<close>

theorem truncate_value_idempotent:
  assumes "20 \<le> max_length \<or> (key \<noteq> ''data'' \<and> 0 \<le> max_length)"
  shows "truncate_value key (truncate_value key val max_length) max_length
           = truncate_value key val max_length"
proof (cases "key = ''data'' \<and> length val > 20")
  case True
  then show ?thesis
    by (simp add: truncate_value_def slice_to_def)
next
  case False
  note not_data = this
  show ?thesis
  proof (cases "int (length val) > max_length")
    case True
    with assms not_data have nn: "0 \<le> max_length" by auto
    from True nn have len: "length (slice_to max_length val) = nat max_length"
      by (rule length_slice_to [rotated])
    from assms not_data True nn show ?thesis
      by (auto simp add: truncate_value_def len slice_to_prefix)
  next
    case False
    with not_data have "truncate_value key val max_length = val"
      by (auto simp add: truncate_value_def)
    then show ?thesis
      by simp
  qed
qed

theorem truncate_value_idempotent_witness:
  "truncate_value ''data'' (truncate_value ''data'' ''0x1234567890abcdef1234567890'' 50) 50
     = truncate_value ''data'' ''0x1234567890abcdef1234567890'' 50
   \<and> truncate_value ''data'' ''0x1234567890abcdef1234567890'' 50 = ''0x1234567890abcdef12...''"
  using truncate_value_idempotent [of 50 "''data''" "''0x1234567890abcdef1234567890''"]
  by (simp add: truncate_value_def slice_to_def)

section \<open>Raising and returning\<close>

lemma bind_exn_Inl [simp]: "bind_exn (Inl e) f = Inl e"
  by (simp add: bind_exn_def)

lemma bind_exn_Inr [simp]: "bind_exn (Inr v) f = f v"
  by (simp add: bind_exn_def)

lemma bind_exn_eq_Inr: "(bind_exn x f = Inr y) = (\<exists>v. x = Inr v \<and> f v = Inr y)"
  by (cases x) simp_all

lemma not_isl_Inr: "\<not> isl x \<Longrightarrow> \<exists>v. x = Inr v"
  by (cases x) simp_all

lemma py_get_PDict [simp]: "py_get (PDict kvs) key dflt = Inr (dict_get kvs key dflt)"
  by (simp add: py_get_def)

lemma dict_get_field_ok: "field_ok P kvs key \<Longrightarrow> P dflt \<Longrightarrow> P (dict_get kvs key dflt)"
  by (simp add: field_ok_def dict_get_def split: option.splits)

lemmas py_defs = truthy_def is_dict_def is_list_def dict_get_def py_items_def
  py_len_def py_iter_def py_float_def py_mul_int_def py_format_f_def

section \<open>Floats at concrete values\<close>

lemma digits_fixed_2: "digits_fixed 2 n = [digit_char (n div 10 mod 10), digit_char (n mod 10)]"
  by (simp add: numeral_2_eq_2)

lemma to_double_12345: "to_double False 12345 10 = Finite False 5429388417957888 (- 42)"
  by (simp add: to_double_def bit_length.simps pow2_le_def rne_div_def Let_def)

lemma parse_decimal_1234_5:
  "parse_decimal False ''1234.5'' = Some (Finite False 5429388417957888 (- 42))"
  by (simp add: parse_decimal_def parse_exponent_def is_digit_def nat_of_digits_def digit_val_def
      to_double_12345)

lemma float_of_str_1234_5:
  "float_of_str ''1234.5'' = Inr (Finite False 5429388417957888 (- 42))"
  by (simp add: float_of_str_def is_digit_def strip_def is_space_def lower_def parse_decimal_1234_5)

lemma format_f_1234_5: "format_f 2 (Finite False 5429388417957888 (- 42)) = ''1234.50''"
  by (simp add: rne_div_def Let_def digit_char_def digits_fixed_2 str_nat.simps)

lemma float_of_int_100: "float_of_int 100 = Inr (Finite False 7036874417766400 (- 46))"
  by (simp add: float_of_int_def to_double_def bit_length.simps pow2_le_def rne_div_def Let_def)

text \<open>
  The float nearest to 0.1523 is \<open>5487185785988212 * 2 ^ -55\<close>; its product with 100 is
  the float \<open>8573727790606581 * 2 ^ -49\<close>, a little below 15.23.
\<close>

lemma to_double_0_1523: "to_double False 1523 10000 = Finite False 5487185785988212 (- 55)"
  by (simp add: to_double_def bit_length.simps pow2_le_def rne_div_def Let_def)

lemma float_mul_0_1523:
  "float_mul (Finite False 5487185785988212 (- 55)) (Finite False 7036874417766400 (- 46))
     = Finite False 8573727790606581 (- 49)"
  by (simp add: to_double_def bit_length.simps pow2_le_def rne_div_def Let_def)

lemma format_f_15_23: "format_f 2 (Finite False 8573727790606581 (- 49)) = ''15.23''"
  by (simp add: rne_div_def Let_def digit_char_def digits_fixed_2 str_nat.simps)

section \<open>The formatters at concrete payloads\<close>

text \<open>
  C2: a \<^verbatim>\<open>data\<close> list that is present and empty should give \<open>No idle assets found\<close>
  and \<open>No active positions found\<close>. The code returns the other message of each
  formatter: the guard \<^verbatim>\<open>not idle_assets.get('data')\<close> is true of an empty list, so
  the loop and the flag behind it are never reached with no entry.
\<close>

theorem empty_data_gives_unavailable_message:
  "format_user_balances (PDict [(''data'', PList [])]) = Inr (Message ''No idle assets available'')
   \<and> format_positions (PDict [(''data'', PList [])]) = Inr (Message ''No positions available'')"
  by (simp add: format_user_balances_def format_positions_def py_defs)

text \<open>
  C3: the network of a deposit option that is a string should be used directly. The
  code calls \<^verbatim>\<open>.get('name', 'N/A')\<close> on it, which raises AttributeError; the driver
  reads the same field of the same option with a test for a string.
\<close>

theorem string_network_raises:
  "format_deposit_options
     (PDict [(''userBalances'', PList [PDict
        [(''asset'', PDict [(''symbol'', PStr ''USDC'')]),
         (''depositOptions'', PList [PDict [(''name'', PStr ''Vault''),
                                           (''network'', PStr ''mainnet'')]])]])])
     = Inl AttributeError
   \<and> deposit_network (PDict [(''name'', PStr ''Vault''), (''network'', PStr ''mainnet'')])
     = Inr (PStr ''mainnet'')"
  by (simp add: format_deposit_options_def options_of_def deposit_option_row_def
      balance_usd_formatted_def deposit_network_def py_get_def py_defs)

text \<open>
  C4: the dollar amount of \<^verbatim>\<open>None\<close> and of the integer 0 is \<open>N/A\<close>, that of the
  string \<open>1234.5\<close> is \<open>$1234.50\<close>.
\<close>

theorem balance_usd_formatted_examples:
  "balance_usd_formatted PNone = Inr ''N/A''
   \<and> balance_usd_formatted (PInt 0) = Inr ''N/A''
   \<and> balance_usd_formatted (PStr ''1234.5'') = Inr ''$1234.50''"
  by (simp add: balance_usd_formatted_def truthy_def py_float_def float_of_str_1234_5
      format_f_1234_5 del: format_f.simps)

section \<open>The percentage of a yield\<close>

lemma to_double_100: "to_double False 100 1 = Finite False 7036874417766400 (- 46)"
  using float_of_int_100 by (simp add: float_of_int_def split: pyfloat.splits)

lemma to_double_100_Suc: "to_double False 100 (Suc 0) = Finite False 7036874417766400 (- 46)"
  using to_double_100 by simp

lemma format_f_100: "format_f 2 (Finite False 7036874417766400 (- 46)) = ''100.00''"
  by (simp add: rne_div_def Let_def digit_char_def digits_fixed_2 str_nat.simps)

text \<open>
  C5, the claim as stated: a yield that is not a number gives \<open>N/A\<close>. It fails for a
  string that is not empty: the string is true, its product with 100 is the string
  repeated, and the format \<^verbatim>\<open>.2f\<close> of a string raises ValueError.
\<close>

theorem apy_formatted_non_numeric_raises:
  "apy_formatted (PStr ''abc'') = Inl ValueError"
  by (simp add: apy_formatted_def py_defs)

text \<open>
  C5, amended: the percentage is \<open>N/A\<close> for a yield that is \<^verbatim>\<open>None\<close> (as a missing
  one is read) or zero; for a float that is not zero it is the float product of the
  yield and 100, printed with two decimals and the sign \<open>%\<close>, and likewise for an
  integer that is not zero and whose hundredfold is in the range of the floats; the
  yield 0.1523 gives \<open>15.23%\<close>.
\<close>

theorem apy_formatted_cases:
  "apy_formatted PNone = Inr ''N/A''
   \<and> apy_formatted (PInt 0) = Inr ''N/A''
   \<and> apy_formatted (PFloat (Finite s 0 e)) = Inr ''N/A''
   \<and> (float_nonzero f \<longrightarrow>
        apy_formatted (PFloat f) = Inr (format_f 2 (float_mul f (to_double False 100 1)) @ ''%''))
   \<and> (i \<noteq> 0 \<longrightarrow> float_of_int (i * 100) = Inr g \<longrightarrow>
        apy_formatted (PInt i) = Inr (format_f 2 g @ ''%''))
   \<and> apy_formatted (PFloat (to_double False 1523 10000)) = Inr ''15.23%''"
proof -
  have falsy: "apy_formatted PNone = Inr ''N/A''" "apy_formatted (PInt 0) = Inr ''N/A''"
    "apy_formatted (PFloat (Finite s 0 e)) = Inr ''N/A''"
    by (simp_all add: apy_formatted_def truthy_def)
  have float: "apy_formatted (PFloat f) = Inr (format_f 2 (float_mul f (to_double False 100 1)) @ ''%'')"
    if "float_nonzero f" for f
    using that by (simp add: apy_formatted_def truthy_def py_mul_int_def py_format_f_def
        float_of_int_100 to_double_100_Suc)
  have whole: "apy_formatted (PInt i) = Inr (format_f 2 g @ ''%'')"
    if "i \<noteq> 0" "float_of_int (i * 100) = Inr g"
    using that by (simp add: apy_formatted_def truthy_def py_mul_int_def py_format_f_def)
  have "apy_formatted (PFloat (to_double False 1523 10000)) = Inr ''15.23%''"
    by (simp add: float to_double_100_Suc to_double_0_1523 float_mul_0_1523 format_f_15_23
        del: format_f.simps float_mul.simps)
  with falsy float whole show ?thesis
    by blast
qed

theorem apy_formatted_cases_witness:
  "float_nonzero (Finite False 5487185785988212 (- 55))
   \<and> apy_formatted (PFloat (Finite False 5487185785988212 (- 55))) = Inr ''15.23%''
   \<and> (1::int) \<noteq> 0 \<and> float_of_int (1 * 100) = Inr (Finite False 7036874417766400 (- 46))
   \<and> apy_formatted (PInt 1) = Inr ''100.00%''"
proof -
  have nz: "float_nonzero (Finite False 5487185785988212 (- 55))"
    by simp
  have h: "float_of_int (1 * 100) = Inr (Finite False 7036874417766400 (- 46))"
    by (simp add: float_of_int_100)
  note c = apy_formatted_cases [of False 0 "Finite False 5487185785988212 (- 55)" 1
      "Finite False 7036874417766400 (- 46)"]
  from c nz have "apy_formatted (PFloat (Finite False 5487185785988212 (- 55))) = Inr ''15.23%''"
    by (simp add: to_double_100_Suc float_mul_0_1523 format_f_15_23
        del: format_f.simps float_mul.simps)
  moreover from c h have "apy_formatted (PInt 1) = Inr ''100.00%''"
    by (simp add: format_f_100 del: format_f.simps)
  ultimately show ?thesis
    using nz h by simp
qed

section \<open>Lookups in a dictionary\<close>

lemma map_of_Some_nonempty: "map_of kvs key = Some v \<Longrightarrow> kvs \<noteq> []"
  by auto

lemma dict_get_Some: "map_of kvs key = Some v \<Longrightarrow> dict_get kvs key dflt = v"
  by (simp add: dict_get_def)

section \<open>Balance entries without deposit options\<close>

lemma no_options_options_of: "no_options balance \<Longrightarrow> options_of balance = Inr []"
  by (cases balance)
    (auto simp add: no_options_def options_of_def dict_get_def py_iter_def split: option.splits)

lemma balances_loop_no_options:
  "list_all no_options balances \<Longrightarrow> balances_loop balances table_data = Inr table_data"
  by (induction balances arbitrary: table_data) (simp_all add: no_options_options_of)

lemma format_deposit_options_message:
  "format_deposit_options x = Inr (Message m) \<Longrightarrow> m = ''No deposit options available''"
  by (auto simp add: format_deposit_options_def bind_exn_eq_Inr split: if_splits)

text \<open>
  C10: when \<^verbatim>\<open>userBalances\<close> is a list that is not empty and the deposit options of
  every entry are missing or empty, the formatter returns the table with the headers and
  no data row; and the only message it ever returns is \<open>No deposit options available\<close>:
  it has no message for a table without rows.
\<close>

theorem no_deposit_options_gives_empty_table:
  "(map_of kvs ''userBalances'' = Some (PList balances) \<longrightarrow> balances \<noteq> [] \<longrightarrow>
      list_all no_options balances \<longrightarrow>
      format_deposit_options (PDict kvs) = Inr (Tabulated '''' [] deposit_headers None))
   \<and> (format_deposit_options x = Inr (Message m) \<longrightarrow> m = ''No deposit options available'')"
proof (intro conjI impI)
  assume ub: "map_of kvs ''userBalances'' = Some (PList balances)"
    and ne: "balances \<noteq> []" and no: "list_all no_options balances"
  from ub have "kvs \<noteq> []"
    by (rule map_of_Some_nonempty)
  with ub ne show "format_deposit_options (PDict kvs) = Inr (Tabulated '''' [] deposit_headers None)"
    by (simp add: format_deposit_options_def truthy_def dict_get_Some py_iter_def
        balances_loop_no_options [OF no])
next
  assume "format_deposit_options x = Inr (Message m)"
  then show "m = ''No deposit options available''"
    by (rule format_deposit_options_message)
qed

theorem no_deposit_options_gives_empty_table_witness:
  "format_deposit_options
     (PDict [(''userBalances'', PList [PDict [(''asset'', PDict [(''symbol'', PStr ''USDC'')])],
                                       PDict [(''depositOptions'', PList [])]])])
     = Inr (Tabulated '''' [] deposit_headers None)
   \<and> format_deposit_options PNone = Inr (Message ''No deposit options available'')"
proof -
  note c = no_deposit_options_gives_empty_table [of
      "[(''userBalances'', PList [PDict [(''asset'', PDict [(''symbol'', PStr ''USDC'')])],
                                       PDict [(''depositOptions'', PList [])]])]"
      "[PDict [(''asset'', PDict [(''symbol'', PStr ''USDC'')])],
        PDict [(''depositOptions'', PList [])]]"
      PNone "''No deposit options available''"]
  have "format_deposit_options PNone = Inr (Message ''No deposit options available'')"
    by (simp add: format_deposit_options_def truthy_def)
  with c show ?thesis
    by (simp add: no_options_def)
qed

section \<open>Rows of entries of the expected shape\<close>

lemma balance_usd_formatted_total: "amount_ok v \<Longrightarrow> \<exists>s. balance_usd_formatted v = Inr s"
  by (cases v) (auto simp add: amount_ok_def balance_usd_formatted_def truthy_def py_float_def
      dest!: not_isl_Inr split: if_splits)

lemma balance_formatted_total: "amount_ok v \<Longrightarrow> \<exists>s. balance_formatted v symbol = Inr s"
  by (cases v) (auto simp add: amount_ok_def balance_formatted_def truthy_def py_float_def
      dest!: not_isl_Inr split: if_splits)

lemma apy_formatted_total: "apy_total_ok v \<Longrightarrow> \<exists>s. apy_formatted v = Inr s"
  by (cases v) (auto simp add: apy_total_ok_def apy_formatted_def truthy_def py_mul_int_def
      py_format_f_def float_of_int_100 dest!: not_isl_Inr split: if_splits)

lemma vault_name_short_total: "is_str v \<Longrightarrow> \<exists>r. vault_name_short n v = Inr r"
  by (cases v) (simp_all add: is_str_def vault_name_short_def py_len_def)

lemma is_dict_PDict: "is_dict v \<Longrightarrow> \<exists>kvs. v = PDict kvs"
  by (cases v) (simp_all add: is_dict_def)

lemma is_object_PDict: "is_object P v \<Longrightarrow> \<exists>kvs. v = PDict kvs \<and> P kvs"
  by (cases v) (simp_all add: is_object_def)

lemma asset_object:
  assumes "field_ok wf_asset kvs ''asset''"
  shows "\<exists>a. dict_get kvs ''asset'' (PDict []) = PDict a \<and> amount_ok (dict_get a ''balanceUsd'' PNone)"
proof -
  from assms have "wf_asset (dict_get kvs ''asset'' (PDict []))"
    by (rule dict_get_field_ok) (simp add: wf_asset_def is_object_def field_ok_def)
  then obtain a where a: "dict_get kvs ''asset'' (PDict []) = PDict a"
      and "field_ok amount_ok a ''balanceUsd''"
    by (auto simp add: wf_asset_def dest: is_object_PDict)
  moreover have "amount_ok PNone"
    by (simp add: amount_ok_def)
  ultimately have "amount_ok (dict_get a ''balanceUsd'' PNone)"
    by (blast intro: dict_get_field_ok)
  with a show ?thesis
    by blast
qed

lemma apy_object:
  assumes "field_ok wf_apy kvs ''apy''"
  shows "\<exists>a. dict_get kvs ''apy'' (PDict []) = PDict a \<and> apy_total_ok (dict_get a ''total'' PNone)"
proof -
  from assms have "wf_apy (dict_get kvs ''apy'' (PDict []))"
    by (rule dict_get_field_ok) (simp add: wf_apy_def is_object_def field_ok_def)
  then obtain a where a: "dict_get kvs ''apy'' (PDict []) = PDict a"
      and "field_ok apy_total_ok a ''total''"
    by (auto simp add: wf_apy_def dest: is_object_PDict)
  moreover have "apy_total_ok PNone"
    by (simp add: apy_total_ok_def)
  ultimately have "apy_total_ok (dict_get a ''total'' PNone)"
    by (blast intro: dict_get_field_ok)
  with a show ?thesis
    by blast
qed

lemma named_object:
  assumes "field_ok is_dict kvs key"
  shows "\<exists>d. dict_get kvs key (PDict []) = PDict d"
proof -
  from assms have "is_dict (dict_get kvs key (PDict []))"
    by (rule dict_get_field_ok) (simp add: is_dict_def)
  then show ?thesis
    by (rule is_dict_PDict)
qed

lemma position_row_total:
  assumes "wf_position position"
  shows "\<exists>row. position_row position = Inr row"
proof -
  from assms obtain kvs where p: "position = PDict kvs"
    and nw: "field_ok is_dict kvs ''network''" and pr: "field_ok is_dict kvs ''protocol''"
    and nm: "field_ok is_str kvs ''name''" and asset: "field_ok wf_asset kvs ''asset''"
    and apy: "field_ok wf_apy kvs ''apy''"
    by (auto simp add: wf_position_def dest: is_object_PDict)
  from nw obtain n where n: "dict_get kvs ''network'' (PDict []) = PDict n"
    by (auto dest: named_object)
  from pr obtain q where q: "dict_get kvs ''protocol'' (PDict []) = PDict q"
    by (auto dest: named_object)
  from nm have "is_str (dict_get kvs ''name'' (PStr ''Unknown Vault''))"
    by (rule dict_get_field_ok) (simp add: is_str_def)
  then obtain short where short: "vault_name_short 16 (dict_get kvs ''name'' (PStr ''Unknown Vault'')) = Inr short"
    by (auto dest: vault_name_short_total)
  from asset obtain a where a: "dict_get kvs ''asset'' (PDict []) = PDict a"
    and "amount_ok (dict_get a ''balanceUsd'' PNone)"
    by (auto dest: asset_object)
  then obtain usd where usd: "balance_usd_formatted (dict_get a ''balanceUsd'' PNone) = Inr usd"
    by (auto dest: balance_usd_formatted_total)
  from apy obtain y where y: "dict_get kvs ''apy'' (PDict []) = PDict y"
    and "apy_total_ok (dict_get y ''total'' PNone)"
    by (auto dest: apy_object)
  then obtain pct where pct: "apy_formatted (dict_get y ''total'' PNone) = Inr pct"
    by (auto dest: apy_formatted_total)
  show ?thesis
    by (simp add: position_row_def p n q short a usd y pct)
qed

lemma balance_row_total:
  assumes "wf_idle_asset asset"
  shows "\<exists>row. balance_row asset = Inr row"
proof -
  from assms obtain kvs where p: "asset = PDict kvs"
    and bn: "field_ok amount_ok kvs ''balanceNative''" and bu: "field_ok amount_ok kvs ''balanceUsd''"
    and nw: "field_ok is_dict kvs ''network''"
    by (auto simp add: wf_idle_asset_def dest: is_object_PDict)
  have none: "amount_ok PNone"
    by (simp add: amount_ok_def)
  from bn none have "amount_ok (dict_get kvs ''balanceNative'' PNone)"
    by (rule dict_get_field_ok)
  then obtain native where native: "balance_formatted (dict_get kvs ''balanceNative'' PNone)
      (dict_get kvs ''symbol'' (PStr ''N/A'')) = Inr native"
    by (auto dest: balance_formatted_total)
  from bu none have "amount_ok (dict_get kvs ''balanceUsd'' PNone)"
    by (rule dict_get_field_ok)
  then obtain usd where usd: "balance_usd_formatted (dict_get kvs ''balanceUsd'' PNone) = Inr usd"
    by (auto dest: balance_usd_formatted_total)
  from nw obtain n where n: "dict_get kvs ''network'' (PDict []) = PDict n"
    by (auto dest: named_object)
  show ?thesis
    by (simp add: balance_row_def p native usd n)
qed

lemma deposit_option_row_total:
  assumes "wf_balance_entry balance" and "wf_deposit_option option"
  shows "\<exists>row. deposit_option_row balance option = Inr row"
proof -
  from assms(1) obtain bkvs where b: "balance = PDict bkvs"
    and asset: "field_ok wf_asset bkvs ''asset''"
    by (auto simp add: wf_balance_entry_def dest: is_object_PDict)
  from assms(2) obtain kvs where p: "option = PDict kvs"
    and nw: "field_ok is_dict kvs ''network''" and pr: "field_ok is_dict kvs ''protocol''"
    and nm: "field_ok is_str kvs ''name''" and apy: "field_ok wf_apy kvs ''apy''"
    by (auto simp add: wf_deposit_option_def dest: is_object_PDict)
  from asset obtain a where a: "dict_get bkvs ''asset'' (PDict []) = PDict a"
    and "amount_ok (dict_get a ''balanceUsd'' PNone)"
    by (auto dest: asset_object)
  then obtain usd where usd: "balance_usd_formatted (dict_get a ''balanceUsd'' PNone) = Inr usd"
    by (auto dest: balance_usd_formatted_total)
  from nw obtain n where n: "dict_get kvs ''network'' (PDict []) = PDict n"
    by (auto dest: named_object)
  from nm have "is_str (dict_get kvs ''name'' (PStr ''N/A''))"
    by (rule dict_get_field_ok) (simp add: is_str_def)
  then obtain short where short: "vault_name_short 18 (dict_get kvs ''name'' (PStr ''N/A'')) = Inr short"
    by (auto dest: vault_name_short_total)
  from pr obtain q where q: "dict_get kvs ''protocol'' (PDict []) = PDict q"
    by (auto dest: named_object)
  from apy obtain y where y: "dict_get kvs ''apy'' (PDict []) = PDict y"
    and "apy_total_ok (dict_get y ''total'' PNone)"
    by (auto dest: apy_object)
  then obtain pct where pct: "apy_formatted (dict_get y ''total'' PNone) = Inr pct"
    by (auto dest: apy_formatted_total)
  show ?thesis
    by (simp add: deposit_option_row_def b p a usd n short q y pct)
qed

section \<open>The loops\<close>

text \<open>
  A loop that returns has appended, to the table data it started from, one row for each
  entry, in the order of the entries.
\<close>

lemma positions_loop_rows:
  "positions_loop entries (table_data, has) = Inr (table_data', has') \<Longrightarrow>
     \<exists>rows. table_data' = table_data @ rows \<and> rows_for position_row entries rows
       \<and> has' = (has \<or> entries \<noteq> [])"
proof (induction entries arbitrary: table_data has)
  case Nil
  then show ?case by (simp add: rows_for_def)
next
  case (Cons e entries)
  from Cons.prems obtain row where row: "position_row e = Inr row"
    and rest: "positions_loop entries (table_data @ [row], True) = Inr (table_data', has')"
    by (auto split: sum.splits)
  from Cons.IH [OF rest] obtain rows where "table_data' = (table_data @ [row]) @ rows"
    and "rows_for position_row entries rows" and "has' = (True \<or> entries \<noteq> [])"
    by blast
  with row have "table_data' = table_data @ (row # rows) \<and> rows_for position_row (e # entries) (row # rows)
      \<and> has' = (has \<or> e # entries \<noteq> [])"
    by (simp add: rows_for_def)
  then show ?case
    by blast
qed

lemma positions_loop_total:
  "list_all wf_position entries \<Longrightarrow> \<exists>r. positions_loop entries (table_data, has) = Inr r"
proof (induction entries arbitrary: table_data has)
  case Nil
  then show ?case by simp
next
  case (Cons e entries)
  then obtain row where "position_row e = Inr row"
    by (auto dest: position_row_total)
  with Cons show ?case
    by simp
qed

lemma user_balances_loop_rows:
  "user_balances_loop entries (table_data, has) = Inr (table_data', has') \<Longrightarrow>
     \<exists>rows. table_data' = table_data @ rows \<and> rows_for balance_row entries rows
       \<and> has' = (has \<or> entries \<noteq> [])"
proof (induction entries arbitrary: table_data has)
  case Nil
  then show ?case by (simp add: rows_for_def)
next
  case (Cons e entries)
  from Cons.prems obtain row where row: "balance_row e = Inr row"
    and rest: "user_balances_loop entries (table_data @ [row], True) = Inr (table_data', has')"
    by (auto split: sum.splits)
  from Cons.IH [OF rest] obtain rows where "table_data' = (table_data @ [row]) @ rows"
    and "rows_for balance_row entries rows" and "has' = (True \<or> entries \<noteq> [])"
    by blast
  with row have "table_data' = table_data @ (row # rows) \<and> rows_for balance_row (e # entries) (row # rows)
      \<and> has' = (has \<or> e # entries \<noteq> [])"
    by (simp add: rows_for_def)
  then show ?case
    by blast
qed

lemma user_balances_loop_total:
  "list_all wf_idle_asset entries \<Longrightarrow> \<exists>r. user_balances_loop entries (table_data, has) = Inr r"
proof (induction entries arbitrary: table_data has)
  case Nil
  then show ?case by simp
next
  case (Cons e entries)
  then obtain row where "balance_row e = Inr row"
    by (auto dest: balance_row_total)
  with Cons show ?case
    by simp
qed

lemma options_loop_rows:
  "options_loop balance options table_data = Inr table_data' \<Longrightarrow>
     \<exists>rows. table_data' = table_data @ rows \<and> rows_for (deposit_option_row balance) options rows"
proof (induction options arbitrary: table_data)
  case Nil
  then show ?case by (simp add: rows_for_def)
next
  case (Cons option options)
  from Cons.prems obtain row where row: "deposit_option_row balance option = Inr row"
    and rest: "options_loop balance options (table_data @ [row]) = Inr table_data'"
    by (auto split: sum.splits)
  from Cons.IH [OF rest] obtain rows where "table_data' = (table_data @ [row]) @ rows"
    and "rows_for (deposit_option_row balance) options rows"
    by blast
  with row have "table_data' = table_data @ (row # rows)
      \<and> rows_for (deposit_option_row balance) (option # options) (row # rows)"
    by (simp add: rows_for_def)
  then show ?case
    by blast
qed

lemma options_loop_total:
  "wf_balance_entry balance \<Longrightarrow> list_all wf_deposit_option options \<Longrightarrow>
     \<exists>r. options_loop balance options table_data = Inr r"
proof (induction options arbitrary: table_data)
  case Nil
  then show ?case by simp
next
  case (Cons option options)
  then obtain row where "deposit_option_row balance option = Inr row"
    by (auto dest: deposit_option_row_total)
  with Cons show ?case
    by simp
qed

lemma rows_for_length: "rows_for row entries rows \<Longrightarrow> length rows = length entries"
  by (simp add: rows_for_def list_all2_lengthD)

text \<open>
  The rows of a balance entry: those of its deposit options, in their order.
\<close>

lemma balances_loop_rows:
  "balances_loop balances table_data = Inr table_data' \<Longrightarrow>
     \<exists>blocks. table_data' = table_data @ concat blocks
       \<and> list_all2 (\<lambda>balance rows. \<exists>options. options_of balance = Inr options
              \<and> rows_for (deposit_option_row balance) options rows) balances blocks
       \<and> length (concat blocks) = sum_list (map option_count balances)"
proof (induction balances arbitrary: table_data)
  case Nil
  then show ?case by simp
next
  case (Cons balance balances)
  from Cons.prems obtain options mid where opts: "options_of balance = Inr options"
    and inner: "options_loop balance options table_data = Inr mid"
    and rest: "balances_loop balances mid = Inr table_data'"
    by (auto split: sum.splits)
  from options_loop_rows [OF inner] obtain rows where mid: "mid = table_data @ rows"
    and rows: "rows_for (deposit_option_row balance) options rows"
    by blast
  from Cons.IH [OF rest] obtain blocks where td: "table_data' = mid @ concat blocks"
    and all: "list_all2 (\<lambda>balance rows. \<exists>options. options_of balance = Inr options
              \<and> rows_for (deposit_option_row balance) options rows) balances blocks"
    and len: "length (concat blocks) = sum_list (map option_count balances)"
    by blast
  from rows have "length rows = option_count balance"
    by (simp add: option_count_def opts rows_for_length)
  with mid td all len opts rows
  have "table_data' = table_data @ concat (rows # blocks)
      \<and> list_all2 (\<lambda>balance rows. \<exists>options. options_of balance = Inr options
              \<and> rows_for (deposit_option_row balance) options rows) (balance # balances) (rows # blocks)
      \<and> length (concat (rows # blocks)) = sum_list (map option_count (balance # balances))"
    by simp
  then show ?case
    by blast
qed

lemma wf_balance_entry_options:
  assumes "wf_balance_entry balance"
  shows "\<exists>options. options_of balance = Inr options \<and> list_all wf_deposit_option options"
proof -
  from assms obtain kvs where b: "balance = PDict kvs"
    and "field_ok wf_options kvs ''depositOptions''"
    by (auto simp add: wf_balance_entry_def dest: is_object_PDict)
  moreover have "wf_options (PList [])"
    by (simp add: wf_options_def)
  ultimately have "wf_options (dict_get kvs ''depositOptions'' (PList []))"
    by (blast intro: dict_get_field_ok)
  then obtain options where "dict_get kvs ''depositOptions'' (PList []) = PList options"
    and "list_all wf_deposit_option options"
    by (cases "dict_get kvs ''depositOptions'' (PList [])") (simp_all add: wf_options_def)
  with b show ?thesis
    by (simp add: options_of_def py_iter_def)
qed

lemma balances_loop_total:
  "list_all wf_balance_entry balances \<Longrightarrow> \<exists>r. balances_loop balances table_data = Inr r"
proof (induction balances arbitrary: table_data)
  case Nil
  then show ?case by simp
next
  case (Cons balance balances)
  then have wf: "wf_balance_entry balance"
    by simp
  then obtain options where opts: "options_of balance = Inr options"
    and "list_all wf_deposit_option options"
    by (auto dest: wf_balance_entry_options)
  with wf obtain mid where "options_loop balance options table_data = Inr mid"
    using options_loop_total by blast
  with Cons opts show ?case
    by simp
qed


lemma py_get_Inr: "py_get x key dflt = Inr v \<Longrightarrow> \<exists>kvs. x = PDict kvs \<and> v = dict_get kvs key dflt"
  by (cases x) (auto simp add: py_get_def)

lemma dict_get_nonempty: "dict_get kvs key PNone = PList (e # es) \<Longrightarrow> kvs \<noteq> []"
  by (auto simp add: dict_get_def)

lemma dict_get_dflt: "dict_get kvs key PNone = PList xs \<Longrightarrow> dict_get kvs key dflt = PList xs"
  by (auto simp add: dict_get_def split: option.splits)

section \<open>The tables\<close>


lemma format_positions_list:
  assumes "dict_get kvs ''data'' PNone = PList entries" and "entries \<noteq> []"
  shows "format_positions (PDict kvs) =
    bind_exn (positions_loop entries ([], False)) (\<lambda>(table_data, has_positions).
      if has_positions then Inr (Tabulated '''' table_data position_headers None)
      else Inr (Message ''No active positions found''))"
proof -
  from assms have "kvs \<noteq> []"
    by (cases entries) (auto dest: dict_get_nonempty)
  with assms show ?thesis
    by (simp add: format_positions_def dict_get_dflt [OF assms(1)] truthy_def is_list_def py_iter_def)
qed

lemma format_positions_no_list:
  assumes "\<forall>e es. dict_get kvs ''data'' PNone \<noteq> PList (e # es)"
  shows "format_positions (PDict kvs) = Inr (Message ''No positions available'')"
proof (cases "dict_get kvs ''data'' PNone")
  case (PList xs)
  with assms have "xs = []"
    by (cases xs) simp_all
  with PList show ?thesis
    by (simp add: format_positions_def truthy_def)
qed (simp_all add: format_positions_def truthy_def is_list_def)


lemma format_positions_rows:
  assumes "wf_positions x" and "py_get x ''data'' PNone = Inr (PList entries)" and "entries \<noteq> []"
  shows "\<exists>rows. format_positions x = Inr (Tabulated '''' rows position_headers None)
           \<and> length rows = length entries \<and> rows_for position_row entries rows"
proof -
  from assms(2) obtain kvs where x: "x = PDict kvs"
    and data: "dict_get kvs ''data'' PNone = PList entries"
    by (auto dest!: py_get_Inr)
  from assms(1) x have "field_ok wf_position_data kvs ''data''"
    by (simp add: wf_positions_def)
  moreover have "wf_position_data PNone"
    by (simp add: wf_position_data_def)
  ultimately have "wf_position_data (dict_get kvs ''data'' PNone)"
    by (blast intro: dict_get_field_ok)
  with data have "list_all wf_position entries"
    by (simp add: wf_position_data_def)
  then obtain table_data has where loop: "positions_loop entries ([], False) = Inr (table_data, has)"
    using positions_loop_total [of entries "[]" False] by auto
  from positions_loop_rows [OF this] assms(3) have rows: "rows_for position_row entries table_data"
    and has: "has"
    by simp_all
  from loop has have "format_positions x = Inr (Tabulated '''' table_data position_headers None)"
    by (simp add: x format_positions_list [OF data assms(3)])
  with rows show ?thesis
    by (auto dest: rows_for_length)
qed

lemma format_positions_total:
  assumes "wf_positions x"
  shows "\<exists>r. format_positions x = Inr r"
proof (cases x)
  case (PDict kvs)
  show ?thesis
  proof (cases "\<exists>e es. dict_get kvs ''data'' PNone = PList (e # es)")
    case True
    then obtain e es where "py_get x ''data'' PNone = Inr (PList (e # es))"
      by (auto simp add: PDict)
    from format_positions_rows [OF assms this] show ?thesis
      by auto
  next
    case False
    then show ?thesis
      by (simp add: PDict format_positions_no_list)
  qed
qed (use assms in \<open>simp_all add: wf_positions_def format_positions_def\<close>)


lemma format_user_balances_list:
  assumes "dict_get kvs ''data'' PNone = PList entries" and "entries \<noteq> []"
  shows "format_user_balances (PDict kvs) =
    bind_exn (user_balances_loop entries ([], False)) (\<lambda>(table_data, has_balances).
      if has_balances then Inr (Tabulated '''' table_data balance_headers None)
      else Inr (Message ''No idle assets found''))"
proof -
  from assms have "kvs \<noteq> []"
    by (cases entries) (auto dest: dict_get_nonempty)
  with assms show ?thesis
    by (simp add: format_user_balances_def dict_get_dflt [OF assms(1)] truthy_def is_list_def py_iter_def)
qed

lemma format_user_balances_no_list:
  assumes "\<forall>e es. dict_get kvs ''data'' PNone \<noteq> PList (e # es)"
  shows "format_user_balances (PDict kvs) = Inr (Message ''No idle assets available'')"
proof (cases "dict_get kvs ''data'' PNone")
  case (PList xs)
  with assms have "xs = []"
    by (cases xs) simp_all
  with PList show ?thesis
    by (simp add: format_user_balances_def truthy_def)
qed (simp_all add: format_user_balances_def truthy_def is_list_def)


lemma format_user_balances_rows:
  assumes "wf_idle_assets x" and "py_get x ''data'' PNone = Inr (PList entries)" and "entries \<noteq> []"
  shows "\<exists>rows. format_user_balances x = Inr (Tabulated '''' rows balance_headers None)
           \<and> length rows = length entries \<and> rows_for balance_row entries rows"
proof -
  from assms(2) obtain kvs where x: "x = PDict kvs"
    and data: "dict_get kvs ''data'' PNone = PList entries"
    by (auto dest!: py_get_Inr)
  from assms(1) x have "field_ok wf_idle_data kvs ''data''"
    by (simp add: wf_idle_assets_def)
  moreover have "wf_idle_data PNone"
    by (simp add: wf_idle_data_def)
  ultimately have "wf_idle_data (dict_get kvs ''data'' PNone)"
    by (blast intro: dict_get_field_ok)
  with data have "list_all wf_idle_asset entries"
    by (simp add: wf_idle_data_def)
  then obtain table_data has where loop: "user_balances_loop entries ([], False) = Inr (table_data, has)"
    using user_balances_loop_total [of entries "[]" False] by auto
  from user_balances_loop_rows [OF this] assms(3) have rows: "rows_for balance_row entries table_data"
    and has: "has"
    by simp_all
  from loop has have "format_user_balances x = Inr (Tabulated '''' table_data balance_headers None)"
    by (simp add: x format_user_balances_list [OF data assms(3)])
  with rows show ?thesis
    by (auto dest: rows_for_length)
qed

lemma format_user_balances_total:
  assumes "wf_idle_assets x"
  shows "\<exists>r. format_user_balances x = Inr r"
proof (cases x)
  case (PDict kvs)
  show ?thesis
  proof (cases "\<exists>e es. dict_get kvs ''data'' PNone = PList (e # es)")
    case True
    then obtain e es where "py_get x ''data'' PNone = Inr (PList (e # es))"
      by (auto simp add: PDict)
    from format_user_balances_rows [OF assms this] show ?thesis
      by auto
  next
    case False
    then show ?thesis
      by (simp add: PDict format_user_balances_no_list)
  qed
qed (use assms in \<open>simp_all add: wf_idle_assets_def format_user_balances_def\<close>)


lemma balances_loop_blocks:
  assumes "balances_loop balances [] = Inr rows"
  shows "\<exists>blocks. rows = concat blocks \<and> list_all2 entry_rows balances blocks
           \<and> length rows = sum_list (map option_count balances)"
proof -
  from balances_loop_rows [OF assms] obtain blocks where rows: "rows = concat blocks"
    and all: "list_all2 (\<lambda>balance rows. \<exists>options. options_of balance = Inr options
              \<and> rows_for (deposit_option_row balance) options rows) balances blocks"
    and len: "length (concat blocks) = sum_list (map option_count balances)"
    by auto
  from all have "list_all2 entry_rows balances blocks"
    by (rule list_all2_mono) (auto simp add: entry_rows_def)
  with rows len show ?thesis
    by blast
qed


lemma format_deposit_options_list:
  assumes "dict_get kvs ''userBalances'' PNone = PList balances" and "balances \<noteq> []"
  shows "format_deposit_options (PDict kvs) =
    bind_exn (balances_loop balances []) (\<lambda>table_data.
      Inr (Tabulated '''' table_data deposit_headers None))"
proof -
  from assms have "kvs \<noteq> []"
    by (cases balances) (auto dest: dict_get_nonempty)
  with assms show ?thesis
    by (simp add: format_deposit_options_def dict_get_dflt [OF assms(1)] truthy_def py_iter_def)
qed



lemma format_deposit_options_rows:
  assumes "wf_deposit_response x" and "py_get x ''userBalances'' PNone = Inr (PList balances)"
    and "balances \<noteq> []"
  shows "\<exists>rows blocks. format_deposit_options x = Inr (Tabulated '''' rows deposit_headers None)
           \<and> length rows = sum_list (map option_count balances)
           \<and> rows = concat blocks \<and> list_all2 entry_rows balances blocks"
proof -
  from assms(2) obtain kvs where x: "x = PDict kvs"
    and data: "dict_get kvs ''userBalances'' PNone = PList balances"
    by (auto dest!: py_get_Inr)
  from assms(1) x have "field_ok wf_user_balances kvs ''userBalances''"
    by (simp add: wf_deposit_response_def)
  moreover have "wf_user_balances PNone"
    by (simp add: wf_user_balances_def truthy_def)
  ultimately have "wf_user_balances (dict_get kvs ''userBalances'' PNone)"
    by (blast intro: dict_get_field_ok)
  with data have "list_all wf_balance_entry balances"
    by (simp add: wf_user_balances_def)
  then obtain table_data where loop: "balances_loop balances [] = Inr table_data"
    using balances_loop_total [of balances "[]"] by auto
  then have "format_deposit_options x = Inr (Tabulated '''' table_data deposit_headers None)"
    by (simp add: x format_deposit_options_list [OF data assms(3)])
  with balances_loop_blocks [OF loop] show ?thesis
    by auto
qed

lemma format_deposit_options_total:
  assumes "wf_deposit_response x"
  shows "\<exists>r. format_deposit_options x = Inr r"
proof (cases x)
  case (PDict kvs)
  from assms PDict have "field_ok wf_user_balances kvs ''userBalances''"
    by (simp add: wf_deposit_response_def)
  moreover have "wf_user_balances PNone"
    by (simp add: wf_user_balances_def truthy_def)
  ultimately have wf: "wf_user_balances (dict_get kvs ''userBalances'' PNone)"
    by (blast intro: dict_get_field_ok)
  show ?thesis
  proof (cases "\<exists>e es. dict_get kvs ''userBalances'' PNone = PList (e # es)")
    case True
    then obtain e es where "py_get x ''userBalances'' PNone = Inr (PList (e # es))"
      by (auto simp add: PDict)
    from format_deposit_options_rows [OF assms this] show ?thesis
      by auto
  next
    case False
    with wf have "\<not> truthy (dict_get kvs ''userBalances'' PNone)"
      by (cases "dict_get kvs ''userBalances'' PNone")
        (auto simp add: wf_user_balances_def truthy_def neq_Nil_conv)
    then show ?thesis
      by (simp add: PDict format_deposit_options_def)
  qed
qed (use assms in \<open>simp_all add: wf_deposit_response_def format_deposit_options_def\<close>)

section \<open>The tables of the example payloads\<close>

lemma digits_fixed_numeral:
  "digits_fixed (numeral k) n = digits_fixed (pred_numeral k) (n div 10) @ [digit_char (n mod 10)]"
  by (subst numeral_eq_Suc) simp

lemma digits_fixed_1: "digits_fixed 1 n = [digit_char (n mod 10)]"
  by simp

lemma format_f_6_1234_5: "format_f 6 (Finite False 5429388417957888 (- 42)) = ''1234.500000''"
  by (simp add: rne_div_def Let_def digit_char_def digits_fixed_numeral digits_fixed_1 str_nat.simps)

lemma usd_1234_5: "balance_usd_formatted (PStr ''1234.5'') = Inr ''$1234.50''"
  by (simp add: balance_usd_formatted_def truthy_def py_float_def float_of_str_1234_5
      format_f_1234_5 del: format_f.simps)

lemma usd_None: "balance_usd_formatted PNone = Inr ''N/A''"
  by (simp add: balance_usd_formatted_def truthy_def)

lemma apy_None: "apy_formatted PNone = Inr ''N/A''"
  by (simp add: apy_formatted_def truthy_def)

lemma apy_0_1523: "apy_formatted (PFloat (Finite False 5487185785988212 (- 55))) = Inr ''15.23%''"
  by (simp add: apy_formatted_def truthy_def py_mul_int_def py_format_f_def float_of_int_100
      float_mul_0_1523 format_f_15_23 del: format_f.simps float_mul.simps)

lemma native_1234_5:
  "balance_formatted (PStr ''1234.5'') (PStr ''USDC'') = Inr ''1234.500000 USDC''"
  by (simp add: balance_formatted_def truthy_def py_float_def float_of_str_1234_5
      format_f_6_1234_5 py_str_def del: format_f.simps)

lemma native_None: "balance_formatted PNone symbol = Inr ''N/A''"
  by (simp add: balance_formatted_def truthy_def)

lemmas cell_examples = usd_1234_5 usd_None apy_None apy_0_1523 native_1234_5 native_None


lemma two_assets_table:
  "format_user_balances (PDict [(''data'', PList two_assets)]) = Inr (Tabulated ''''
     [[PStr ''USDC'', PStr ''1234.500000 USDC'', PStr ''$1234.50'', PStr ''base''],
      [PStr ''ETH'', PStr ''N/A'', PStr ''N/A'', PStr ''N/A'']]
     balance_headers None)"
  by (simp add: format_user_balances_def two_assets_def balance_row_def truthy_def is_list_def
      py_iter_def dict_get_def cell_examples)


section \<open>The number and the order of the rows\<close>



lemma amount_ok_1234_5: "amount_ok (PStr ''1234.5'')"
  by (simp add: amount_ok_def float_of_str_1234_5)

lemma wf_two_entries: "wf_deposit_response two_entries"
  by (simp add: wf_deposit_response_def wf_user_balances_def wf_balance_entry_def wf_asset_def
      wf_options_def wf_deposit_option_def wf_apy_def is_object_def field_ok_def is_dict_def
      is_str_def apy_total_ok_def amount_ok_1234_5 two_entries_def usdc_entry_def usds_entry_def)

lemma wf_two_assets: "wf_idle_assets (PDict [(''data'', PList two_assets)])"
  by (simp add: wf_idle_assets_def wf_idle_data_def wf_idle_asset_def is_object_def field_ok_def
      is_dict_def amount_ok_1234_5 two_assets_def)

lemma wf_two_positions: "wf_positions (PDict [(''data'', PList two_positions)])"
  by (simp add: wf_positions_def wf_position_data_def wf_position_def wf_asset_def wf_apy_def
      is_object_def field_ok_def is_dict_def is_str_def apy_total_ok_def amount_ok_1234_5
      two_positions_def)


section \<open>The rows of a transaction\<close>

lemma actions_loop_blocks:
  "actions_loop n i actions table_data = Inr table_data' \<Longrightarrow>
     \<exists>blocks. table_data' = table_data @ concat blocks \<and> length blocks = length actions
       \<and> (\<forall>j<length actions. action_rows n (i + j) (actions ! j) = Inr (blocks ! j))"
proof (induction actions arbitrary: i table_data)
  case Nil
  then show ?case by simp
next
  case (Cons action actions)
  from Cons.prems obtain rows where rows: "action_rows n i action = Inr rows"
    and rest: "actions_loop n (Suc i) actions (table_data @ rows) = Inr table_data'"
    by (auto split: sum.splits)
  from Cons.IH [OF rest] obtain blocks where td: "table_data' = (table_data @ rows) @ concat blocks"
    and len: "length blocks = length actions"
    and each: "\<forall>j<length actions. action_rows n (Suc i + j) (actions ! j) = Inr (blocks ! j)"
    by blast
  have "action_rows n (i + j) ((action # actions) ! j) = Inr ((rows # blocks) ! j)"
    if "j < length (action # actions)" for j
  proof (cases j)
    case 0
    with rows show ?thesis by simp
  next
    case (Suc k)
    with that each show ?thesis by simp
  qed
  with td len have "table_data' = table_data @ concat (rows # blocks)
      \<and> length (rows # blocks) = length (action # actions)
      \<and> (\<forall>j<length (action # actions).
            action_rows n (i + j) ((action # actions) ! j) = Inr ((rows # blocks) ! j))"
    by simp
  then show ?case
    by blast
qed

lemma truncate_any_str: "is_str v \<Longrightarrow> \<exists>r. truncate_any key v max_length = Inr r"
  by (cases v) (simp_all add: is_str_def truncate_any_def)

lemma action_rows_total:
  assumes "wf_action action"
  shows "\<exists>rows. action_rows n i action = Inr rows"
proof (cases action)
  case (PDict kvs)
  with assms have nm: "field_ok is_str kvs ''name''" and tx: "field_ok is_dict kvs ''tx''"
    by (simp_all add: wf_action_def)
  from nm have "is_str (dict_get kvs ''name'' (PStr (''Action '' @ str_nat (Suc i))))"
    by (rule dict_get_field_ok) (simp add: is_str_def)
  then obtain name where name: "truncate_any ''name''
      (dict_get kvs ''name'' (PStr (''Action '' @ str_nat (Suc i)))) 60 = Inr name"
    by (auto dest: truncate_any_str)
  from tx obtain items where items: "dict_get kvs ''tx'' (PDict []) = PDict items"
    by (auto dest: named_object)
  from name have name': "truncate_any ''name''
      (dict_get kvs ''name'' (PStr (''Action '' @ str_nat (i + 1)))) 60 = Inr name"
    by simp
  show ?thesis
    unfolding action_rows_def PDict
    by (simp only: py_get_PDict bind_exn_Inr name' items py_items_def is_dict_def pyval.case if_True)
      simp
qed (simp_all add: action_rows_def is_dict_def)

lemma actions_loop_total:
  "list_all wf_action actions \<Longrightarrow> \<exists>r. actions_loop n i actions table_data = Inr r"
proof (induction actions arbitrary: i table_data)
  case Nil
  then show ?case by simp
next
  case (Cons action actions)
  then obtain rows where "action_rows n i action = Inr rows"
    using action_rows_total [of action n i] by auto
  with Cons show ?case
    by simp
qed

text \<open>The rows of one action, by its kind.\<close>

lemma action_rows_dict:
  assumes "is_dict action" and "action_rows n i action = Inr rows"
  shows "\<exists>name items.
      bind_exn (py_get action ''name'' (PStr (''Action '' @ str_nat (i + 1))))
        (\<lambda>v. truncate_any ''name'' v 60) = Inr name
      \<and> py_get action ''tx'' (PDict []) = Inr (PDict items)
      \<and> rows = [PStr (''Action '' @ str_nat (i + 1)), name]
           # map (\<lambda>kv. [PStr (''  '' @ fst kv), PStr (truncate_value (fst kv) (py_str (snd kv)) 50)]) items
           @ (if i + 1 < n then [[PStr '''', PStr '''']] else [])"
proof -
  from assms(1) obtain kvs where a: "action = PDict kvs"
    by (auto dest: is_dict_PDict)
  from assms(2) obtain name items where
    "truncate_any ''name'' (dict_get kvs ''name'' (PStr (''Action '' @ str_nat (i + 1)))) 60 = Inr name"
    and "py_items (dict_get kvs ''tx'' (PDict [])) = Inr items"
    and "rows = [PStr (''Action '' @ str_nat (i + 1)), name]
           # map (\<lambda>kv. [PStr (''  '' @ fst kv), PStr (truncate_value (fst kv) (py_str (snd kv)) 50)]) items
           @ (if int i < int n - 1 then [[PStr '''', PStr '''']] else [])"
    by (auto simp add: action_rows_def a is_dict_def bind_exn_eq_Inr)
  moreover from this(2) have "dict_get kvs ''tx'' (PDict []) = PDict items"
    by (cases "dict_get kvs ''tx'' (PDict [])") (simp_all add: py_items_def)
  moreover have "(int i < int n - 1) = (i + 1 < n)"
    by auto
  ultimately show ?thesis
    by (simp add: a)
qed

lemma action_rows_other:
  "\<not> is_dict action \<Longrightarrow> action_rows n i action =
     Inr [[PStr (''Action '' @ str_nat (i + 1)), PStr (truncate_value ''action'' (py_str action) 50)]]"
  by (simp add: action_rows_def)

lemma transaction_table_data_actions:
  assumes "map_of kvs ''actions'' = Some (PList actions)"
  shows "transaction_table_data kvs =
    actions_loop (length actions) 0 actions
       (properties_loop kvs [] @ [[PStr '''', PStr ''''],
          [PStr ''Total Actions'', PStr (str_nat (length actions))], [PStr '''', PStr '''']])"
  using assms by (simp add: transaction_table_data_def)

lemma format_transaction_blob_PDict:
  "kvs \<noteq> [] \<Longrightarrow> format_transaction_blob tabulate_error (PDict kvs) =
     bind_exn (transaction_table_data kvs) (tabulate_wrapped tabulate_error)"
  by (simp add: format_transaction_blob_def truthy_def is_dict_def py_items_def)

text \<open>
  The rows of a transaction whose field \<^verbatim>\<open>actions\<close> is a list: the rows of the other
  fields, a blank row, the row \<open>Total Actions\<close> with the number of actions, a blank
  row, and then the rows of each action in order, numbered from 1.
\<close>

lemma transaction_table_data_rows:
  assumes "map_of kvs ''actions'' = Some (PList actions)"
    and "transaction_table_data kvs = Inr table_data"
  shows "\<exists>blocks. table_data =
          properties_loop kvs [] @ [[PStr '''', PStr ''''],
             [PStr ''Total Actions'', PStr (str_nat (length actions))], [PStr '''', PStr '''']]
           @ concat blocks
        \<and> length blocks = length actions
        \<and> (\<forall>j<length actions. action_rows (length actions) j (actions ! j) = Inr (blocks ! j))"
proof -
  from assms have "actions_loop (length actions) 0 actions
       (properties_loop kvs [] @ [[PStr '''', PStr ''''],
          [PStr ''Total Actions'', PStr (str_nat (length actions))], [PStr '''', PStr '''']])
       = Inr table_data"
    by (simp add: transaction_table_data_actions)
  from actions_loop_blocks [OF this] show ?thesis
    by auto
qed

lemma transaction_table_data_total:
  assumes "wf_transaction (PDict kvs)"
  shows "\<exists>table_data. transaction_table_data kvs = Inr table_data"
proof (cases "\<exists>actions. map_of kvs ''actions'' = Some (PList actions)")
  case True
  then obtain actions where actions: "map_of kvs ''actions'' = Some (PList actions)"
    by blast
  with assms have "list_all wf_action actions"
    by (simp add: wf_transaction_def field_ok_def wf_actions_def)
  then obtain table_data where "actions_loop (length actions) 0 actions
       (properties_loop kvs [] @ [[PStr '''', PStr ''''],
          [PStr ''Total Actions'', PStr (str_nat (length actions))], [PStr '''', PStr '''']])
       = Inr table_data"
    using actions_loop_total by blast
  then show ?thesis
    by (simp add: transaction_table_data_actions [OF actions])
next
  case False
  then have "transaction_table_data kvs = Inr (properties_loop kvs [])"
    by (auto simp add: transaction_table_data_def Let_def split: option.splits pyval.splits)
  then show ?thesis
    by simp
qed

lemma example_transaction_rows:
  "transaction_table_data example_transaction
     = Inr [[PStr ''to'', PStr ''0xabc''], [PStr ''value'', PStr ''0''], [PStr ''gas'', PStr ''N/A''],
          [PStr '''', PStr ''''], [PStr ''Total Actions'', PStr ''3''], [PStr '''', PStr ''''],
          [PStr ''Action 1'', PStr ''Approve''],
          [PStr ''  to'', PStr ''0xabc''],
          [PStr ''  data'', PStr ''0x1234567890abcdef12...''],
          [PStr '''', PStr ''''],
          [PStr ''Action 2'', PStr ''skip''],
          [PStr ''Action 3'', PStr ''Action 3'']]"
  by (simp add: transaction_table_data_def action_rows_def
      example_transaction_def example_actions_def slice_to_def str_int_def
      truncate_any_def truncate_value_def py_str_def str_nat.simps digit_char_def
      is_dict_def py_items_def dict_get_def)

section \<open>The rendering of the actions\<close>

text \<open>
  C8: a blank row stands between any two consecutive actions, and none after the last
  one; the comment of the code on the blank row says the same (\<open>Add spacing between
  actions\<close>, line 69). The code appends the blank row inside the branch of an action
  that is a dictionary, so an action of another kind is followed by no blank row: for
  the two actions \<open>a\<close>, a string, and \<open>{name: b}\<close>, the rows that the formatter builds
  and hands to \<^verbatim>\<open>tabulate\<close> end with the row of the first action and the row of the
  second, with no blank row between the two.
\<close>

theorem no_spacer_after_plain_action:
  "transaction_table_data [(''actions'', PList [PStr ''a'', PDict [(''name'', PStr ''b'')]])]
     = Inr [[PStr '''', PStr ''''], [PStr ''Total Actions'', PStr ''2''], [PStr '''', PStr ''''],
            [PStr ''Action 1'', PStr ''a''],
            [PStr ''Action 2'', PStr ''b'']]
   \<and> format_transaction_blob tabulate_error
       (PDict [(''actions'', PList [PStr ''a'', PDict [(''name'', PStr ''b'')]])])
     = tabulate_wrapped tabulate_error
         [[PStr '''', PStr ''''], [PStr ''Total Actions'', PStr ''2''], [PStr '''', PStr ''''],
          [PStr ''Action 1'', PStr ''a''],
          [PStr ''Action 2'', PStr ''b'']]"
  by (simp add: format_transaction_blob_def transaction_table_data_def action_rows_def
      truncate_any_def truncate_value_def py_str_def str_nat.simps digit_char_def truthy_def
      is_dict_def py_items_def dict_get_def)

theorem no_spacer_after_plain_action_witness:
  "format_transaction_blob Map.empty
       (PDict [(''actions'', PList [PStr ''a'', PDict [(''name'', PStr ''b'')]])])
     = Inr (Tabulated banner
         [[PStr '''', PStr ''''], [PStr ''Total Actions'', PStr ''2''], [PStr '''', PStr ''''],
          [PStr ''Action 1'', PStr ''a''],
          [PStr ''Action 2'', PStr ''b'']]
         [''Property'', ''Value''] (Some [20, 60]))"
  using no_spacer_after_plain_action [of Map.empty] by (simp add: tabulate_wrapped_def)

section \<open>Payloads on which the formatters raise, and on which they return\<close>

lemma float_of_str_abc: "float_of_str ''abc'' = Inl ValueError"
  by (simp add: float_of_str_def is_digit_def strip_def is_space_def lower_def parse_decimal_def)

text \<open>
  An action whose name is null: \<^verbatim>\<open>len(None)\<close> raises TypeError while the rows are
  built, before the call of \<^verbatim>\<open>tabulate\<close>.
\<close>

lemma transaction_null_name_raises:
  "format_transaction_blob tabulate_error (PDict [(''actions'', PList [PDict [(''name'', PNone)]])])
     = Inl TypeError"
  by (simp add: format_transaction_blob_def transaction_table_data_def action_rows_def
      truncate_any_def py_get_def py_defs)

text \<open>
  The rows of a transaction can be none at all, and a cell can read \<open>False\<close>: these are
  tables on which the call of \<^verbatim>\<open>tabulate\<close> with \<^verbatim>\<open>maxcolwidths\<close> is known to raise.
\<close>

lemma transaction_tables_that_tabulate_refuses:
  "format_transaction_blob tabulate_error (PDict [(''actions'', PNone)])
     = tabulate_wrapped tabulate_error []
   \<and> format_transaction_blob tabulate_error (PDict [(''simulate'', PBool False)])
     = tabulate_wrapped tabulate_error [[PStr ''simulate'', PStr ''False'']]"
  by (simp add: format_transaction_blob_def transaction_table_data_def truncate_value_def
      py_str_def truthy_def is_dict_def py_items_def)

text \<open>
  C1, the claim as stated: no formatter raises, whatever the shape of the payload. It
  fails where a field that the code reads as a dictionary is null (AttributeError),
  where a balance is a string that is no number (ValueError), and where the name of an
  action is null (TypeError, raised before the table is drawn, here with a call of
  \<^verbatim>\<open>tabulate\<close> that raises nothing).
\<close>

theorem formatters_raise:
  "format_positions (PDict [(''data'', PList [PDict [(''network'', PNone)]])]) = Inl AttributeError
   \<and> format_user_balances (PDict [(''data'', PList [PDict [(''balanceUsd'', PStr ''abc'')]])])
     = Inl ValueError
   \<and> format_transaction_blob Map.empty (PDict [(''actions'', PList [PDict [(''name'', PNone)]])])
     = Inl TypeError"
  by (simp add: format_positions_def position_row_def format_user_balances_def balance_row_def
      balance_formatted_def balance_usd_formatted_def float_of_str_abc
      format_transaction_blob_def transaction_table_data_def action_rows_def truncate_any_def
      py_get_def py_defs)

text \<open>
  C1, amended: on a payload of the expected shape (any field may be missing; a field
  that is present has the type of the data model, the network of a deposit option being
  a dictionary) the code of the four formatters raises nothing. Each formatter returns
  one of its messages, or builds the rows of its table and returns what its call of
  \<^verbatim>\<open>tabulate\<close> draws from them. For \<^verbatim>\<open>format_transaction_blob\<close>, whose call has
  \<^verbatim>\<open>maxcolwidths\<close>: it returns a string, or else it has built the rows and the call
  has raised on them the exception that the formatter raises. An entry without any
  field gives the rows of \<open>N/A\<close>.
\<close>

theorem formatters_return:
  "(wf_idle_assets a \<longrightarrow> (\<exists>r. format_user_balances a = Inr r))
   \<and> (wf_deposit_response d \<longrightarrow> (\<exists>r. format_deposit_options d = Inr r))
   \<and> (wf_positions p \<longrightarrow> (\<exists>r. format_positions p = Inr r))
   \<and> (wf_transaction t \<longrightarrow>
        (\<exists>r. format_transaction_blob tabulate_error t = Inr r)
        \<or> (\<exists>kvs table_data e. t = PDict kvs \<and> transaction_table_data kvs = Inr table_data
             \<and> tabulate_error table_data = Some e
             \<and> format_transaction_blob tabulate_error t = Inl e))
   \<and> balance_row (PDict []) = Inr [PStr ''N/A'', PStr ''N/A'', PStr ''N/A'', PStr ''N/A'']
   \<and> deposit_option_row (PDict []) (PDict [])
     = Inr [PStr ''N/A'', PStr ''N/A'', PStr ''N/A'', PStr ''N/A'', PStr ''N/A'', PStr ''N/A'']
   \<and> position_row (PDict [])
     = Inr [PStr ''N/A'', PStr ''N/A'', PStr ''Unknown Vault'', PStr ''N/A'', PStr ''N/A'', PStr ''N/A'']"
proof -
  have "balance_row (PDict []) = Inr [PStr ''N/A'', PStr ''N/A'', PStr ''N/A'', PStr ''N/A'']"
    by (simp add: balance_row_def dict_get_def cell_examples)
  moreover have "deposit_option_row (PDict []) (PDict [])
     = Inr [PStr ''N/A'', PStr ''N/A'', PStr ''N/A'', PStr ''N/A'', PStr ''N/A'', PStr ''N/A'']"
    by (simp add: deposit_option_row_def vault_name_short_def py_len_def dict_get_def cell_examples)
  moreover have "position_row (PDict [])
     = Inr [PStr ''N/A'', PStr ''N/A'', PStr ''Unknown Vault'', PStr ''N/A'', PStr ''N/A'', PStr ''N/A'']"
    by (simp add: position_row_def vault_name_short_def py_len_def dict_get_def cell_examples)
  moreover have "(\<exists>r. format_transaction_blob tabulate_error t = Inr r)
        \<or> (\<exists>kvs table_data e. t = PDict kvs \<and> transaction_table_data kvs = Inr table_data
             \<and> tabulate_error table_data = Some e
             \<and> format_transaction_blob tabulate_error t = Inl e)"
    if wf: "wf_transaction t"
  proof (cases t)
    case (PDict kvs)
    show ?thesis
    proof (cases "kvs = []")
      case True
      with PDict show ?thesis
        by (simp add: format_transaction_blob_def truthy_def)
    next
      case False
      from wf PDict obtain table_data where rows: "transaction_table_data kvs = Inr table_data"
        using transaction_table_data_total by blast
      with False have call: "format_transaction_blob tabulate_error (PDict kvs)
          = tabulate_wrapped tabulate_error table_data"
        by (simp add: format_transaction_blob_PDict)
      show ?thesis
      proof (cases "tabulate_error table_data")
        case None
        with call PDict show ?thesis
          by (simp add: tabulate_wrapped_def)
      next
        case (Some e)
        with call have "format_transaction_blob tabulate_error (PDict kvs) = Inl e"
          by (simp add: tabulate_wrapped_def)
        with PDict rows Some show ?thesis
          by blast
      qed
    qed
  qed (simp_all add: format_transaction_blob_def is_dict_def)
  ultimately show ?thesis
    using format_user_balances_total [of a] format_deposit_options_total [of d]
      format_positions_total [of p]
    by blast
qed

lemma wf_example_transaction: "wf_transaction (PDict example_transaction)"
  by (simp add: wf_transaction_def wf_actions_def wf_action_def field_ok_def is_str_def is_dict_def
      example_transaction_def example_actions_def)

lemma example_transaction_nonempty: "example_transaction \<noteq> []"
  by (simp add: example_transaction_def)

theorem formatters_return_witness:
  "wf_idle_assets (PDict [(''data'', PList two_assets)])
   \<and> format_user_balances (PDict [(''data'', PList two_assets)]) = Inr (Tabulated ''''
     [[PStr ''USDC'', PStr ''1234.500000 USDC'', PStr ''$1234.50'', PStr ''base''],
      [PStr ''ETH'', PStr ''N/A'', PStr ''N/A'', PStr ''N/A'']]
     balance_headers None)
   \<and> wf_deposit_response two_entries
   \<and> isl (format_deposit_options two_entries) = False
   \<and> wf_positions (PDict [(''data'', PList two_positions)])
   \<and> isl (format_positions (PDict [(''data'', PList two_positions)])) = False
   \<and> wf_transaction (PDict example_transaction)
   \<and> format_transaction_blob Map.empty (PDict example_transaction)
     = Inr (Tabulated banner
         [[PStr ''to'', PStr ''0xabc''], [PStr ''value'', PStr ''0''], [PStr ''gas'', PStr ''N/A''],
          [PStr '''', PStr ''''], [PStr ''Total Actions'', PStr ''3''], [PStr '''', PStr ''''],
          [PStr ''Action 1'', PStr ''Approve''],
          [PStr ''  to'', PStr ''0xabc''],
          [PStr ''  data'', PStr ''0x1234567890abcdef12...''],
          [PStr '''', PStr ''''],
          [PStr ''Action 2'', PStr ''skip''],
          [PStr ''Action 3'', PStr ''Action 3'']]
         [''Property'', ''Value''] (Some [20, 60]))
   \<and> wf_transaction (PDict [(''simulate'', PBool False)])
   \<and> format_transaction_blob [[[PStr ''simulate'', PStr ''False'']] \<mapsto> AttributeError]
       (PDict [(''simulate'', PBool False)])
     = Inl AttributeError"
proof -
  note c = formatters_return [of "PDict [(''data'', PList two_assets)]" two_entries
      "PDict [(''data'', PList two_positions)]" "PDict example_transaction" Map.empty]
  from c [THEN conjunct1, rule_format, OF wf_two_assets]
  have "isl (format_user_balances (PDict [(''data'', PList two_assets)])) = False"
    by auto
  moreover from c [THEN conjunct2, THEN conjunct1, rule_format, OF wf_two_entries]
  have "isl (format_deposit_options two_entries) = False"
    by auto
  moreover from c [THEN conjunct2, THEN conjunct2, THEN conjunct1, rule_format, OF wf_two_positions]
  have "isl (format_positions (PDict [(''data'', PList two_positions)])) = False"
    by auto
  moreover from c [THEN conjunct2, THEN conjunct2, THEN conjunct2, THEN conjunct1, rule_format,
      OF wf_example_transaction]
  obtain r where "format_transaction_blob Map.empty (PDict example_transaction) = Inr r"
    by auto
  then have "format_transaction_blob Map.empty (PDict example_transaction)
     = Inr (Tabulated banner
         [[PStr ''to'', PStr ''0xabc''], [PStr ''value'', PStr ''0''], [PStr ''gas'', PStr ''N/A''],
          [PStr '''', PStr ''''], [PStr ''Total Actions'', PStr ''3''], [PStr '''', PStr ''''],
          [PStr ''Action 1'', PStr ''Approve''],
          [PStr ''  to'', PStr ''0xabc''],
          [PStr ''  data'', PStr ''0x1234567890abcdef12...''],
          [PStr '''', PStr ''''],
          [PStr ''Action 2'', PStr ''skip''],
          [PStr ''Action 3'', PStr ''Action 3'']]
         [''Property'', ''Value''] (Some [20, 60]))"
    using example_transaction_nonempty
    by (simp add: format_transaction_blob_PDict example_transaction_rows tabulate_wrapped_def)
  moreover have wf: "wf_transaction (PDict [(''simulate'', PBool False)])"
    by (simp add: wf_transaction_def field_ok_def)
  moreover
  note c' = formatters_return [of _ _ _ "PDict [(''simulate'', PBool False)]"
      "[[[PStr ''simulate'', PStr ''False'']] \<mapsto> AttributeError]"]
  from c' [THEN conjunct2, THEN conjunct2, THEN conjunct2, THEN conjunct1, rule_format, OF wf]
  have "format_transaction_blob [[[PStr ''simulate'', PStr ''False'']] \<mapsto> AttributeError]
       (PDict [(''simulate'', PBool False)])
     = Inl AttributeError"
    by (simp add: transaction_tables_that_tabulate_refuses tabulate_wrapped_def)
  ultimately show ?thesis
    using wf_two_assets wf_two_entries wf_two_positions wf_example_transaction two_assets_table
    by simp
qed

section \<open>The driver's choice of a deposit option\<close>

lemma get_best_deposit_options_returned:
  "format_deposit_options response = Inr printed \<Longrightarrow>
     get_best_deposit_options (Inr response) = response"
  by (simp add: get_best_deposit_options_def)

lemma get_best_deposit_options_caught:
  "format_deposit_options response = Inl e \<Longrightarrow> get_best_deposit_options (Inr response) = PNone"
  by (simp add: get_best_deposit_options_def)

lemma first_deposit_option_None: "first_deposit_option PNone = Inr None"
  by (simp add: first_deposit_option_def truthy_def)

lemma unnamed_response_raises: "format_deposit_options (PDict unnamed_response) = Inl TypeError"
  by (simp add: unnamed_response_def format_deposit_options_def options_of_def
      deposit_option_row_def balance_usd_formatted_def vault_name_short_def py_get_def py_defs)

text \<open>
  C9, the claim as stated: whenever the first balance entry of the response has at
  least three deposit options, the driver selects the option at index 2. It fails for a
  response on which \<^verbatim>\<open>format_deposit_options\<close> raises, here on the null name of the
  first option: step 1 catches the exception and returns \<^verbatim>\<open>None\<close>, and the driver
  selects no option.
\<close>

theorem driver_selects_nothing:
  "format_deposit_options (PDict unnamed_response) = Inl TypeError
   \<and> get_best_deposit_options (Inr (PDict unnamed_response)) = PNone
   \<and> first_deposit_option (get_best_deposit_options (Inr (PDict unnamed_response))) = Inr None
   \<and> deposit_step (Inr (PDict unnamed_response)) = Inr No_selection"
  by (simp add: get_best_deposit_options_caught [OF unnamed_response_raises]
      unnamed_response_raises first_deposit_option_None deposit_step_def)

text \<open>
  C9, amended: when \<^verbatim>\<open>format_deposit_options\<close> returns on the response, so that step 1
  returns the response, and the first balance entry of the response has at least three
  deposit options, the driver selects the option at index 2 of the list as it is
  given, whatever the yields of the options are; the vault address and the network of
  the request it then makes are read from that option. When
  \<^verbatim>\<open>format_deposit_options\<close> raises on the response, the driver selects no option.
\<close>

theorem driver_selects_third_option:
  assumes "map_of kvs ''userBalances'' = Some (PList (PDict fkvs # rest))"
    and "map_of fkvs ''depositOptions'' = Some (PList options)"
    and "3 \<le> length options"
  shows "(format_deposit_options (PDict kvs) = Inr printed \<longrightarrow>
        first_deposit_option (get_best_deposit_options (Inr (PDict kvs)))
          = Inr (Some (PDict fkvs, options ! 2))
        \<and> (deposit_step (Inr (PDict kvs)) = Inr (Generate vault_address network asset_address) \<longrightarrow>
             py_get (options ! 2) ''address'' PNone = Inr vault_address
             \<and> deposit_network (options ! 2) = Inr network))
    \<and> (format_deposit_options (PDict kvs) = Inl e \<longrightarrow>
        first_deposit_option (get_best_deposit_options (Inr (PDict kvs))) = Inr None
        \<and> deposit_step (Inr (PDict kvs)) = Inr No_selection)"
proof (intro conjI impI)
  assume "format_deposit_options (PDict kvs) = Inr printed"
  then have step1: "get_best_deposit_options (Inr (PDict kvs)) = PDict kvs"
    by (rule get_best_deposit_options_returned)
  from assms(1) have "kvs \<noteq> []"
    by (rule map_of_Some_nonempty)
  with assms have sel: "first_deposit_option (PDict kvs) = Inr (Some (PDict fkvs, options ! 2))"
    by (simp add: first_deposit_option_def truthy_def py_len_def py_index_def dict_get_Some)
  with step1 show "first_deposit_option (get_best_deposit_options (Inr (PDict kvs)))
      = Inr (Some (PDict fkvs, options ! 2))"
    by simp
  assume "deposit_step (Inr (PDict kvs)) = Inr (Generate vault_address network asset_address)"
  then have request: "py_get (options ! 2) ''address'' PNone = Inr vault_address
      \<and> deposit_network (options ! 2) = Inr network"
    by (auto simp add: deposit_step_def step1 sel bind_exn_eq_Inr split: if_splits)
  from request show "py_get (options ! 2) ''address'' PNone = Inr vault_address"
    by simp
  from request show "deposit_network (options ! 2) = Inr network"
    by simp
next
  assume "format_deposit_options (PDict kvs) = Inl e"
  then have step1: "get_best_deposit_options (Inr (PDict kvs)) = PNone"
    by (rule get_best_deposit_options_caught)
  then show "first_deposit_option (get_best_deposit_options (Inr (PDict kvs))) = Inr None"
    by (simp add: first_deposit_option_None)
  from step1 show "deposit_step (Inr (PDict kvs)) = Inr No_selection"
    by (simp add: deposit_step_def first_deposit_option_None)
qed

lemma float_of_int_200: "\<not> isl (float_of_int 200)"
  by (simp add: float_of_int_def to_double_def bit_length.simps pow2_le_def rne_div_def Let_def)

lemma float_of_int_300: "\<not> isl (float_of_int 300)"
  by (simp add: float_of_int_def to_double_def bit_length.simps pow2_le_def rne_div_def Let_def)

lemma wf_example_response: "wf_deposit_response (PDict example_response)"
  by (simp add: wf_deposit_response_def wf_user_balances_def wf_balance_entry_def wf_asset_def
      wf_options_def wf_deposit_option_def wf_apy_def is_object_def field_ok_def is_dict_def
      is_str_def apy_total_ok_def float_of_int_100 float_of_int_200 float_of_int_300
      example_response_def example_entry_def three_options_def)

theorem driver_selects_third_option_witness:
  "isl (format_deposit_options (PDict example_response)) = False
   \<and> first_deposit_option (get_best_deposit_options (Inr (PDict example_response)))
     = Inr (Some (PDict example_entry,
         PDict [(''name'', PStr ''low''), (''address'', PStr ''0x3''),
                (''network'', PDict [(''name'', PStr ''base'')]),
                (''apy'', PDict [(''total'', PInt 1)])]))
   \<and> deposit_step (Inr (PDict example_response))
     = Inr (Generate (PStr ''0x3'') (PStr ''base'') (PStr ''0xA''))
   \<and> format_deposit_options (PDict unnamed_response) = Inl TypeError
   \<and> first_deposit_option (get_best_deposit_options (Inr (PDict unnamed_response))) = Inr None"
proof -
  have ub: "map_of example_response ''userBalances'' = Some (PList (PDict example_entry # []))"
    by (simp add: example_response_def)
  have opts: "map_of example_entry ''depositOptions'' = Some (PList three_options)"
    by (simp add: example_entry_def)
  have len: "3 \<le> length three_options"
    by (simp add: three_options_def)
  have third: "three_options ! 2 =
      PDict [(''name'', PStr ''low''), (''address'', PStr ''0x3''),
             (''network'', PDict [(''name'', PStr ''base'')]),
             (''apy'', PDict [(''total'', PInt 1)])]"
    by (simp add: three_options_def)
  from format_deposit_options_total [OF wf_example_response]
  obtain printed where printed: "format_deposit_options (PDict example_response) = Inr printed"
    by blast
  note c = driver_selects_third_option [OF ub opts len,
      of printed "PStr ''0x3''" "PStr ''base''" "PStr ''0xA''"]
  from c [THEN conjunct1, rule_format, OF printed]
  have sel: "first_deposit_option (get_best_deposit_options (Inr (PDict example_response)))
      = Inr (Some (PDict example_entry, three_options ! 2))"
    by simp
  have request: "deposit_step (Inr (PDict example_response))
      = Inr (Generate (PStr ''0x3'') (PStr ''base'') (PStr ''0xA''))"
    by (simp add: deposit_step_def sel third deposit_network_def example_entry_def
        truthy_def dict_get_def)
  from c [THEN conjunct1, rule_format, OF printed] request
  have "py_get (three_options ! 2) ''address'' PNone = Inr (PStr ''0x3'')"
    by simp
  let ?unnamed = "[PDict [(''name'', PNone), (''address'', PStr ''0x1'')],
                   PDict [(''name'', PStr ''middle''), (''address'', PStr ''0x2'')],
                   PDict [(''name'', PStr ''low''), (''address'', PStr ''0x3'')]]"
  let ?entry = "[(''asset'', PDict [(''symbol'', PStr ''USDC''), (''address'', PStr ''0xA'')]),
                 (''depositOptions'', PList ?unnamed)]"
  have ub': "map_of unnamed_response ''userBalances'' = Some (PList (PDict ?entry # []))"
    by (simp add: unnamed_response_def)
  have opts': "map_of ?entry ''depositOptions'' = Some (PList ?unnamed)"
    by simp
  have len': "3 \<le> length ?unnamed"
    by simp
  note c' = driver_selects_third_option [where e = TypeError, OF ub' opts' len']
  from c' [THEN conjunct2, rule_format, OF unnamed_response_raises]
  have none: "first_deposit_option (get_best_deposit_options (Inr (PDict unnamed_response)))
      = Inr None"
    by simp
  from printed sel third request unnamed_response_raises none show ?thesis
    by simp
qed

end
